theory Spec2Isabelle
  imports Complex_Main "HOL-Library.AList"
begin

section \<open>FitPet: storage, pet care and workout completion\<close>

text \<open>
  A shallow embedding of \<^verbatim>\<open>src/storage.ts\<close> (class MemStorage), of the route handlers
  of \<^verbatim>\<open>src/routes.ts\<close> and of the message effect of \<^verbatim>\<open>src/PetContext.tsx\<close>.

  Conventions.
  \<^item> The integer columns of the schema (\<^verbatim>\<open>src/unnamed/part_002\<close>) are \<open>int\<close>. The
    code holds them as JavaScript numbers (IEEE doubles): its \<open>+\<close> is the integer sum
    as long as both operands and the sum are safe integers (below \<open>2^53\<close> in
    magnitude), and rounds beyond. The attributes of a pet stay in a small range; the
    counters of a user, \<open>xp\<close> and \<open>calories\<close> are not bounded by the code, and a theorem
    about their sums states the range (\<open>safe_integer\<close>, \<open>exact_sum\<close>) it is about.
  \<^item> A JavaScript \<open>Map<number, T>\<close> is an association list in insertion order:
    \<open>get\<close> is \<open>map_of\<close>, \<open>set\<close> is \<open>AList.update\<close> (an existing key keeps its
    place, a new key goes last), \<open>values()\<close> is \<open>map snd\<close>.
  \<^item> An \<open>async\<close> method that mutates the store is a function from the store to its
    result and the new store; every handler runs to completion on its own.
  \<^item> \<open>new Date()\<close> reads the clock: the handlers take the current time \<open>now\<close>
    as an argument.
  \<^item> \<open>undefined\<close> results are \<open>None\<close>.
\<close>

subsection \<open>Dates\<close>

text \<open>
  A JavaScript \<open>Date\<close> is either invalid (its time value is NaN, as after
  \<open>new Date("tomorrow")\<close>) or a point in time, held here by its local calendar fields.
  \<open>getFullYear\<close>, \<open>getMonth\<close> and \<open>getDate\<close> return NaN on an invalid date:
  NaN is \<open>None\<close>, and \<open>===\<close> on numbers is false as soon as one side is NaN.
\<close>

datatype jsdate =
  InvalidDate
  | LocalDate (fullYear: int) (monthIndex: int) (dayOfMonth: int) (msOfDay: int)

fun getFullYear :: "jsdate \<Rightarrow> int option" where
  "getFullYear InvalidDate = None"
| "getFullYear (LocalDate y m d t) = Some y"

fun getMonth :: "jsdate \<Rightarrow> int option" where
  "getMonth InvalidDate = None"
| "getMonth (LocalDate y m d t) = Some m"

fun getDate :: "jsdate \<Rightarrow> int option" where
  "getDate InvalidDate = None"
| "getDate (LocalDate y m d t) = Some d"

fun strict_eq :: "int option \<Rightarrow> int option \<Rightarrow> bool" where
  "strict_eq (Some a) (Some b) = (a = b)"
| "strict_eq _ _ = False"

subsection \<open>The schema\<close>

record user =
  id_user :: int
  username :: string
  password :: string
  streak :: int
  caloriesBurned :: int
  activeMinutes :: int
  completedWorkouts :: int
  createdAt :: jsdate

record pet =
  id_pet :: int
  userId_pet :: int
  name_pet :: string
  type_pet :: string
  health :: int
  hunger :: int
  happiness :: int
  level :: int
  xp :: int
  lastFed :: jsdate
  lastPlayed :: jsdate
  lastGroomed :: jsdate

record workout =
  id_workout :: int
  name_workout :: string
  description :: string
  duration :: int
  calories :: int
  difficulty :: string
  type_workout :: string

record userWorkout =
  id_uw :: int
  userId :: int
  workoutId :: int
  completed :: bool
  scheduledFor :: jsdate
  completedAt :: "jsdate option"

text \<open>\<open>UserWorkoutWithDetails = UserWorkout & { workout: Workout }\<close>; the storage fills
  the field with \<open>workout!\<close>, which is \<open>undefined\<close> when the template is missing.\<close>

record userWorkoutWithDetails = userWorkout +
  workout :: "workout option"

record insertUser =
  ins_username :: string
  ins_password :: string

record insertPet =
  ins_userId_pet :: int
  ins_name_pet :: string
  ins_type_pet :: "string option"

record insertUserWorkout =
  ins_userId :: int
  ins_workoutId :: int
  ins_scheduledFor :: jsdate

record insertWorkout =
  ins_name_workout :: string
  ins_description :: string
  ins_duration :: int
  ins_calories :: int
  ins_difficulty :: string
  ins_type_workout :: string

text \<open>\<open>Partial<Pet>\<close>: every field of a pet, each one present or absent.\<close>

record pet_updates =
  upd_id :: "int option"
  upd_userId :: "int option"
  upd_name :: "string option"
  upd_type :: "string option"
  upd_health :: "int option"
  upd_hunger :: "int option"
  upd_happiness :: "int option"
  upd_level :: "int option"
  upd_xp :: "int option"
  upd_lastFed :: "jsdate option"
  upd_lastPlayed :: "jsdate option"
  upd_lastGroomed :: "jsdate option"

definition no_updates :: pet_updates where
  "no_updates = \<lparr> upd_id = None, upd_userId = None, upd_name = None, upd_type = None,
     upd_health = None, upd_hunger = None, upd_happiness = None, upd_level = None,
     upd_xp = None, upd_lastFed = None, upd_lastPlayed = None, upd_lastGroomed = None \<rparr>"

subsection \<open>MemStorage\<close>

text \<open>The exercises map and its counter are left out: no handler modelled here reads
  or writes them.\<close>

record storage =
  users :: "(int \<times> user) list"
  pets :: "(int \<times> pet) list"
  workouts :: "(int \<times> workout) list"
  userWorkouts :: "(int \<times> userWorkout) list"
  userIdCounter :: int
  petIdCounter :: int
  workoutIdCounter :: int
  userWorkoutIdCounter :: int

definition getUser :: "storage \<Rightarrow> int \<Rightarrow> user option" where
  "getUser s i = map_of (users s) i"

definition createUser :: "jsdate \<Rightarrow> insertUser \<Rightarrow> storage \<Rightarrow> user \<times> storage" where
  "createUser now insertUser s =
     (let i = userIdCounter s;
          u = \<lparr> id_user = i, username = ins_username insertUser,
                password = ins_password insertUser, streak = 0, caloriesBurned = 0,
                activeMinutes = 0, completedWorkouts = 0, createdAt = now \<rparr>
      in (u, s\<lparr> userIdCounter := i + 1, users := AList.update i u (users s) \<rparr>))"

definition getUserByUsername :: "storage \<Rightarrow> string \<Rightarrow> user option" where
  "getUserByUsername s n = find (\<lambda>u. username u = n) (map snd (users s))"

definition updateUserStreak :: "int \<Rightarrow> int \<Rightarrow> storage \<Rightarrow> user option \<times> storage" where
  "updateUserStreak i n s =
     (case getUser s i of
        None \<Rightarrow> (None, s)
      | Some u \<Rightarrow>
          (let updatedUser = u\<lparr> streak := n \<rparr>
           in (Some updatedUser, s\<lparr> users := AList.update i updatedUser (users s) \<rparr>)))"

definition updateUserStats ::
  "int \<Rightarrow> int \<Rightarrow> int \<Rightarrow> int \<Rightarrow> storage \<Rightarrow> user option \<times> storage" where
  "updateUserStats i cb am cw s =
     (case getUser s i of
        None \<Rightarrow> (None, s)
      | Some u \<Rightarrow>
          (let updatedUser = u\<lparr> caloriesBurned := caloriesBurned u + cb,
                                 activeMinutes := activeMinutes u + am,
                                 completedWorkouts := completedWorkouts u + cw \<rparr>
           in (Some updatedUser, s\<lparr> users := AList.update i updatedUser (users s) \<rparr>)))"

definition getPet :: "storage \<Rightarrow> int \<Rightarrow> pet option" where
  "getPet s i = map_of (pets s) i"

definition getPetByUserId :: "storage \<Rightarrow> int \<Rightarrow> pet option" where
  "getPetByUserId s u = find (\<lambda>p. userId_pet p = u) (map snd (pets s))"

definition createPet :: "jsdate \<Rightarrow> insertPet \<Rightarrow> storage \<Rightarrow> pet \<times> storage" where
  "createPet now insertPet s =
     (let i = petIdCounter s;
          p = \<lparr> id_pet = i, userId_pet = ins_userId_pet insertPet,
                name_pet = ins_name_pet insertPet,
                type_pet = (case ins_type_pet insertPet of
                              None \<Rightarrow> ''cat''
                            | Some t \<Rightarrow> if t = [] then ''cat'' else t),
                health = 100, hunger = 100, happiness = 100, level = 1, xp = 0,
                lastFed = now, lastPlayed = now, lastGroomed = now \<rparr>
      in (p, s\<lparr> petIdCounter := i + 1, pets := AList.update i p (pets s) \<rparr>))"

text \<open>The object spread \<open>{ ...pet, ...updates }\<close>: a field of \<open>updates\<close> that is present
  replaces the pet's.\<close>

fun or_else :: "'a option \<Rightarrow> 'a \<Rightarrow> 'a" where
  "or_else None d = d"
| "or_else (Some v) d = v"

definition spread_pet :: "pet \<Rightarrow> pet_updates \<Rightarrow> pet" where
  "spread_pet p u =
     \<lparr> id_pet = or_else (upd_id u) (id_pet p),
       userId_pet = or_else (upd_userId u) (userId_pet p),
       name_pet = or_else (upd_name u) (name_pet p),
       type_pet = or_else (upd_type u) (type_pet p),
       health = or_else (upd_health u) (health p),
       hunger = or_else (upd_hunger u) (hunger p),
       happiness = or_else (upd_happiness u) (happiness p),
       level = or_else (upd_level u) (level p),
       xp = or_else (upd_xp u) (xp p),
       lastFed = or_else (upd_lastFed u) (lastFed p),
       lastPlayed = or_else (upd_lastPlayed u) (lastPlayed p),
       lastGroomed = or_else (upd_lastGroomed u) (lastGroomed p) \<rparr>"

text \<open>The three assignments after the comment \<open>// Ensure values are within bounds\<close>.\<close>

definition ensure_bounds :: "pet \<Rightarrow> pet" where
  "ensure_bounds p0 =
     (let p1 = (if health p0 > 100 then p0\<lparr> health := 100 \<rparr> else p0);
          p2 = (if hunger p1 > 100 then p1\<lparr> hunger := 100 \<rparr> else p1);
          p3 = (if happiness p2 > 100 then p2\<lparr> happiness := 100 \<rparr> else p2)
      in p3)"

definition updatePet :: "int \<Rightarrow> pet_updates \<Rightarrow> storage \<Rightarrow> pet option \<times> storage" where
  "updatePet i updates s =
     (case getPet s i of
        None \<Rightarrow> (None, s)
      | Some p \<Rightarrow>
          (let updatedPet = ensure_bounds (spread_pet p updates)
           in (Some updatedPet, s\<lparr> pets := AList.update i updatedPet (pets s) \<rparr>)))"

definition getWorkout :: "storage \<Rightarrow> int \<Rightarrow> workout option" where
  "getWorkout s i = map_of (workouts s) i"

definition createWorkout :: "insertWorkout \<Rightarrow> storage \<Rightarrow> workout \<times> storage" where
  "createWorkout ins s =
     (let i = workoutIdCounter s;
          w = \<lparr> id_workout = i, name_workout = ins_name_workout ins,
                description = ins_description ins, duration = ins_duration ins,
                calories = ins_calories ins, difficulty = ins_difficulty ins,
                type_workout = ins_type_workout ins \<rparr>
      in (w, s\<lparr> workoutIdCounter := i + 1, workouts := AList.update i w (workouts s) \<rparr>))"

definition getUserWorkout :: "storage \<Rightarrow> int \<Rightarrow> userWorkout option" where
  "getUserWorkout s i = map_of (userWorkouts s) i"

definition with_details :: "userWorkout \<Rightarrow> workout option \<Rightarrow> userWorkoutWithDetails" where
  "with_details uw w = userWorkout.extend uw (userWorkoutWithDetails.fields w)"

definition getUserWorkoutsByUserId :: "storage \<Rightarrow> int \<Rightarrow> userWorkoutWithDetails list" where
  "getUserWorkoutsByUserId s u =
     map (\<lambda>uw. with_details uw (getWorkout s (workoutId uw)))
       (filter (\<lambda>uw. userId uw = u) (map snd (userWorkouts s)))"

definition getUserWorkoutWithDetails :: "storage \<Rightarrow> int \<Rightarrow> userWorkoutWithDetails option" where
  "getUserWorkoutWithDetails s i =
     (case getUserWorkout s i of
        None \<Rightarrow> None
      | Some uw \<Rightarrow>
          (case getWorkout s (workoutId uw) of
             None \<Rightarrow> None
           | Some w \<Rightarrow> Some (with_details uw (Some w))))"

definition createUserWorkout :: "insertUserWorkout \<Rightarrow> storage \<Rightarrow> userWorkout \<times> storage" where
  "createUserWorkout ins s =
     (let i = userWorkoutIdCounter s;
          uw = \<lparr> id_uw = i, userId = ins_userId ins, workoutId = ins_workoutId ins,
                 completed = False, scheduledFor = ins_scheduledFor ins,
                 completedAt = None \<rparr>
      in (uw, s\<lparr> userWorkoutIdCounter := i + 1,
                  userWorkouts := AList.update i uw (userWorkouts s) \<rparr>))"

definition completeUserWorkout :: "jsdate \<Rightarrow> int \<Rightarrow> storage \<Rightarrow> userWorkout option \<times> storage" where
  "completeUserWorkout now i s =
     (case getUserWorkout s i of
        None \<Rightarrow> (None, s)
      | Some uw \<Rightarrow>
          (let completedUserWorkout = uw\<lparr> completed := True, completedAt := Some now \<rparr>
           in (Some completedUserWorkout,
               s\<lparr> userWorkouts := AList.update i completedUserWorkout (userWorkouts s) \<rparr>)))"

text \<open>The store once the constructor and the tasks it starts have run: the three
  sample workouts of \<open>initializeWorkouts\<close>, the default user, then the user's pet.
  \<open>t_user\<close> and \<open>t_pet\<close> are the clock readings of \<open>createUser\<close> and
  \<open>createPet\<close>.\<close>

definition empty_storage :: storage where
  "empty_storage = \<lparr> users = [], pets = [], workouts = [], userWorkouts = [],
     userIdCounter = 1, petIdCounter = 1, workoutIdCounter = 1, userWorkoutIdCounter = 1 \<rparr>"

definition initializeWorkouts :: "storage \<Rightarrow> storage" where
  "initializeWorkouts s =
     (let (morningCardio, s1) = createWorkout
            \<lparr> ins_name_workout = ''Morning Cardio'',
              ins_description = ''Energizing cardio to start your day'',
              ins_duration = 20, ins_calories = 120, ins_difficulty = ''Moderate'',
              ins_type_workout = ''Cardio'' \<rparr> s;
          (strengthTraining, s2) = createWorkout
            \<lparr> ins_name_workout = ''Strength Training'',
              ins_description = ''Build muscle and increase strength'',
              ins_duration = 25, ins_calories = 110, ins_difficulty = ''Hard'',
              ins_type_workout = ''Strength'' \<rparr> s1;
          (eveningYoga, s3) = createWorkout
            \<lparr> ins_name_workout = ''Evening Yoga'',
              ins_description = ''Gentle stretching to end your day'',
              ins_duration = 15, ins_calories = 80, ins_difficulty = ''Easy'',
              ins_type_workout = ''Yoga'' \<rparr> s2
      in s3)"

definition MemStorage_constructor :: "jsdate \<Rightarrow> jsdate \<Rightarrow> storage" where
  "MemStorage_constructor t_user t_pet =
     (let s1 = initializeWorkouts empty_storage;
          (defaultUser, s2) = createUser t_user
            \<lparr> ins_username = ''user'', ins_password = ''password'' \<rparr> s1;
          (pet, s3) = createPet t_pet
            \<lparr> ins_userId_pet = id_user defaultUser, ins_name_pet = ''Buddy'',
              ins_type_pet = Some ''cat'' \<rparr> s2
      in s3)"

subsection \<open>The route handlers\<close>

text \<open>
  A handler takes the path parameter after \<open>parseInt\<close> (\<open>None\<close> is NaN), the request
  body with the types the zod schema asks for, and the store; it returns the response
  and the store it leaves. The checks of a schema that the types do not already make
  (ranges, signs, the enumeration of pet types) are made by the handler, and a failed
  check is the 400 response of the \<open>ZodError\<close> branch. No other exception can arise
  in a handler, except the one written out in \<open>post_user_workouts_complete\<close>.
\<close>

datatype json =
  Message string
  | ZodErrors
  | UserJson "user option"
  | PetJson "pet option"
  | UserWorkoutJson "userWorkout option"
  | UserWorkoutWithDetailsJson "userWorkoutWithDetails option"

datatype response = Response (status: nat) (body: json)

definition post_users :: "jsdate \<Rightarrow> insertUser \<Rightarrow> storage \<Rightarrow> response \<times> storage" where
  "post_users now b s =
     (case getUserByUsername s (ins_username b) of
        Some existingUser \<Rightarrow> (Response 409 (Message ''Username already exists''), s)
      | None \<Rightarrow>
          (let (u, s') = createUser now b s
           in (Response 201 (UserJson (Some u)), s')))"

definition post_pets :: "jsdate \<Rightarrow> insertPet \<Rightarrow> storage \<Rightarrow> response \<times> storage" where
  "post_pets now b s =
     (case getPetByUserId s (ins_userId_pet b) of
        Some existingPet \<Rightarrow> (Response 409 (Message ''User already has a pet''), s)
      | None \<Rightarrow>
          (let (p, s') = createPet now b s
           in (Response 201 (PetJson (Some p)), s')))"

record stats_body =
  body_caloriesBurned :: int
  body_activeMinutes :: int
  body_completedWorkouts :: int

definition post_users_stats :: "int option \<Rightarrow> stats_body \<Rightarrow> storage \<Rightarrow> response \<times> storage" where
  "post_users_stats idParam b s =
     (case idParam of
        None \<Rightarrow> (Response 400 (Message ''Invalid user ID''), s)
      | Some uid \<Rightarrow>
          if \<not> (0 \<le> body_caloriesBurned b \<and> 0 \<le> body_activeMinutes b
                 \<and> 0 \<le> body_completedWorkouts b)
          then (Response 400 ZodErrors, s)
          else (case updateUserStats uid (body_caloriesBurned b) (body_activeMinutes b)
                       (body_completedWorkouts b) s of
                  (None, s') \<Rightarrow> (Response 404 (Message ''User not found''), s')
                | (Some u, s') \<Rightarrow> (Response 200 (UserJson (Some u)), s')))"

text \<open>\<open>updateSchema\<close> of PATCH /api/pets/:id: a zod object drops the keys it does not
  name (\<open>id\<close>, \<open>userId\<close>, \<open>name\<close>) and checks the others.\<close>

definition percent_ok :: "int option \<Rightarrow> bool" where
  "percent_ok v = (case v of None \<Rightarrow> True | Some n \<Rightarrow> 0 \<le> n \<and> n \<le> 100)"

definition date_ok :: "jsdate option \<Rightarrow> bool" where
  "date_ok v = (case v of None \<Rightarrow> True | Some d \<Rightarrow> d \<noteq> InvalidDate)"

definition updateSchema_parse :: "pet_updates \<Rightarrow> pet_updates option" where
  "updateSchema_parse b =
     (if percent_ok (upd_health b) \<and> percent_ok (upd_hunger b) \<and> percent_ok (upd_happiness b)
         \<and> (case upd_xp b of None \<Rightarrow> True | Some n \<Rightarrow> 0 \<le> n)
         \<and> (case upd_level b of None \<Rightarrow> True | Some n \<Rightarrow> 0 < n)
         \<and> (case upd_type b of None \<Rightarrow> True
             | Some t \<Rightarrow> t \<in> set [''cat'', ''dog'', ''rabbit'', ''fox'', ''hamster''])
         \<and> date_ok (upd_lastFed b) \<and> date_ok (upd_lastPlayed b) \<and> date_ok (upd_lastGroomed b)
      then Some (b\<lparr> upd_id := None, upd_userId := None, upd_name := None \<rparr>)
      else None)"

definition patch_pets :: "int option \<Rightarrow> pet_updates \<Rightarrow> storage \<Rightarrow> response \<times> storage" where
  "patch_pets idParam b s =
     (case idParam of
        None \<Rightarrow> (Response 400 (Message ''Invalid pet ID''), s)
      | Some petId \<Rightarrow>
          (case updateSchema_parse b of
             None \<Rightarrow> (Response 400 ZodErrors, s)
           | Some updates \<Rightarrow>
               (case updatePet petId updates s of
                  (None, s') \<Rightarrow> (Response 404 (Message ''Pet not found''), s')
                | (Some p, s') \<Rightarrow> (Response 200 (PetJson (Some p)), s'))))"

definition post_pets_feed :: "jsdate \<Rightarrow> int option \<Rightarrow> storage \<Rightarrow> response \<times> storage" where
  "post_pets_feed now idParam s =
     (case idParam of
        None \<Rightarrow> (Response 400 (Message ''Invalid pet ID''), s)
      | Some petId \<Rightarrow>
          (case getPet s petId of
             None \<Rightarrow> (Response 404 (Message ''Pet not found''), s)
           | Some p \<Rightarrow>
               (let (updatedPet, s') =
                      updatePet petId
                        (no_updates\<lparr> upd_hunger := Some (min (hunger p + 20) 100),
                                     upd_lastFed := Some now \<rparr>) s
                in (Response 200 (PetJson updatedPet), s'))))"

definition post_pets_play :: "jsdate \<Rightarrow> int option \<Rightarrow> storage \<Rightarrow> response \<times> storage" where
  "post_pets_play now idParam s =
     (case idParam of
        None \<Rightarrow> (Response 400 (Message ''Invalid pet ID''), s)
      | Some petId \<Rightarrow>
          (case getPet s petId of
             None \<Rightarrow> (Response 404 (Message ''Pet not found''), s)
           | Some p \<Rightarrow>
               (let (updatedPet, s') =
                      updatePet petId
                        (no_updates\<lparr> upd_happiness := Some (min (happiness p + 15) 100),
                                     upd_hunger := Some (max (hunger p - 5) 0),
                                     upd_lastPlayed := Some now \<rparr>) s
                in (Response 200 (PetJson updatedPet), s'))))"

definition post_pets_groom :: "jsdate \<Rightarrow> int option \<Rightarrow> storage \<Rightarrow> response \<times> storage" where
  "post_pets_groom now idParam s =
     (case idParam of
        None \<Rightarrow> (Response 400 (Message ''Invalid pet ID''), s)
      | Some petId \<Rightarrow>
          (case getPet s petId of
             None \<Rightarrow> (Response 404 (Message ''Pet not found''), s)
           | Some p \<Rightarrow>
               (let (updatedPet, s') =
                      updatePet petId
                        (no_updates\<lparr> upd_health := Some (min (health p + 10) 100),
                                     upd_lastGroomed := Some now \<rparr>) s
                in (Response 200 (PetJson updatedPet), s'))))"

text \<open>POST /api/users/:userId/workouts. The body's \<open>scheduledFor\<close> is the date that
  the schema's transform \<open>new Date(str)\<close> made of the string; \<open>new Date(d)\<close> of a
  date \<open>d\<close> is a date with the same time value.\<close>

record schedule_body =
  body_workoutId :: int
  body_scheduledFor :: jsdate

definition isDuplicate :: "userWorkoutWithDetails list \<Rightarrow> int \<Rightarrow> jsdate \<Rightarrow> bool" where
  "isDuplicate existingWorkouts wid scheduledDate =
     list_ex (\<lambda>uw.
         workoutId uw = wid
         \<and> strict_eq (getDate (scheduledFor uw)) (getDate scheduledDate)
         \<and> strict_eq (getMonth (scheduledFor uw)) (getMonth scheduledDate)
         \<and> strict_eq (getFullYear (scheduledFor uw)) (getFullYear scheduledDate))
       existingWorkouts"

definition post_users_workouts ::
  "int option \<Rightarrow> schedule_body \<Rightarrow> storage \<Rightarrow> response \<times> storage" where
  "post_users_workouts idParam b s =
     (case idParam of
        None \<Rightarrow> (Response 400 (Message ''Invalid user ID''), s)
      | Some uid \<Rightarrow>
          if \<not> 0 < body_workoutId b then (Response 400 ZodErrors, s)
          else
            (case getWorkout s (body_workoutId b) of
               None \<Rightarrow> (Response 404 (Message ''Workout not found''), s)
             | Some w \<Rightarrow>
                 (let existingWorkouts = getUserWorkoutsByUserId s uid;
                      scheduledDate = body_scheduledFor b
                  in if isDuplicate existingWorkouts (body_workoutId b) scheduledDate
                     then (Response 200 (UserWorkoutWithDetailsJson
                             (find (\<lambda>uw. workoutId uw = body_workoutId b) existingWorkouts)), s)
                     else (let (uw, s') =
                                 createUserWorkout
                                   \<lparr> ins_userId = uid, ins_workoutId = body_workoutId b,
                                     ins_scheduledFor = body_scheduledFor b \<rparr> s
                           in (Response 201 (UserWorkoutJson (Some uw)), s')))))"

text \<open>\<open>Math.round\<close> rounds to the nearest integer, a half upwards. The quotient
  \<open>workout.calories / 5\<close> is taken in the rationals: its fractional part is a multiple
  of a fifth, never a half.\<close>

definition Math_round :: "rat \<Rightarrow> int" where
  "Math_round x = \<lfloor>x + 1 / 2\<rfloor>"

text \<open>POST /api/user-workouts/:id/complete. Reading \<open>workout.calories\<close> of an
  undefined \<open>workout\<close> would throw, and the \<open>catch\<close> would answer 500 after
  \<open>completeUserWorkout\<close> has run: that is the \<open>None\<close> branch below, which
  \<open>getUserWorkoutWithDetails\<close> never leads to.\<close>

definition post_user_workouts_complete ::
  "jsdate \<Rightarrow> int option \<Rightarrow> storage \<Rightarrow> response \<times> storage" where
  "post_user_workouts_complete now idParam s =
     (case idParam of
        None \<Rightarrow> (Response 400 (Message ''Invalid user workout ID''), s)
      | Some userWorkoutId \<Rightarrow>
          (case getUserWorkoutWithDetails s userWorkoutId of
             None \<Rightarrow> (Response 404 (Message ''User workout not found''), s)
           | Some uwd \<Rightarrow>
               if completed uwd
               then (Response 400 (Message ''Workout already completed''), s)
               else
                 (let (completedUserWorkout, s1) = completeUserWorkout now userWorkoutId s
                  in case workout uwd of
                       None \<Rightarrow> (Response 500 (Message ''Internal server error''), s1)
                     | Some w \<Rightarrow>
                         (let (u, s2) = updateUserStats (userId uwd) (calories w) (duration w) 1 s1;
                              s3 = (case getPetByUserId s2 (userId uwd) of
                                      None \<Rightarrow> s2
                                    | Some p \<Rightarrow>
                                        (let xpGain = Math_round (of_int (calories w) / 5)
                                         in snd (updatePet (id_pet p)
                                                  (no_updates\<lparr>
                                                     upd_xp := Some (xp p + xpGain),
                                                     upd_happiness := Some (min (happiness p + 10) 100),
                                                     upd_health := Some (min (health p + 5) 100) \<rparr>)
                                                  s2)))
                          in (Response 200 (UserWorkoutJson completedUserWorkout), s3)))))"

subsection \<open>The pet's message (PetContext)\<close>

datatype message_key =
  default | hungry | unhappy | unhealthy | happy | fed | played | groomed | workout_msg

fun petMessages :: "message_key \<Rightarrow> string" where
  "petMessages default = ''Let's crush today's workout! I believe in you!''"
| "petMessages hungry = ''I'm getting a bit hungry. Could you feed me?''"
| "petMessages unhappy = ''I'm feeling a bit down today. Want to play?''"
| "petMessages unhealthy = ''I'm not feeling well. Can you help me?''"
| "petMessages happy = ''I feel amazing today! Let's have a great workout!''"
| "petMessages fed = ''Yum! Thank you for the food!''"
| "petMessages played = ''This is so fun! I love playing with you!''"
| "petMessages groomed = ''I feel refreshed and clean now!''"
| "petMessages workout_msg = ''You're doing great! Keep going!''"

text \<open>The branch that the effect \<open>Set message based on pet status\<close> takes.\<close>

definition pet_mood :: "pet \<Rightarrow> message_key" where
  "pet_mood p =
     (if hunger p < 30 then hungry
      else if happiness p < 30 then unhappy
      else if health p < 30 then unhealthy
      else if happiness p > 80 \<and> health p > 80 then happy
      else default)"

text \<open>The effect itself, on the message state: without a pet it returns at once.\<close>

definition message_effect :: "pet option \<Rightarrow> string \<Rightarrow> string" where
  "message_effect p message =
     (case p of None \<Rightarrow> message | Some q \<Rightarrow> petMessages (pet_mood q))"

subsection \<open>The stores that exist\<close>

text \<open>A store of the class is an empty one on which its methods have been called,
  with any arguments. (\<open>createExercise\<close> writes the exercises map only, which is left
  out.)\<close>

inductive built :: "storage \<Rightarrow> bool" where
  built_empty: "built empty_storage"
| built_createUser: "built s \<Longrightarrow> built (snd (createUser now ins s))"
| built_updateUserStreak: "built s \<Longrightarrow> built (snd (updateUserStreak i n s))"
| built_updateUserStats: "built s \<Longrightarrow> built (snd (updateUserStats i cb am cw s))"
| built_createPet: "built s \<Longrightarrow> built (snd (createPet now insp s))"
| built_updatePet: "built s \<Longrightarrow> built (snd (updatePet i updates s))"
| built_createWorkout: "built s \<Longrightarrow> built (snd (createWorkout insw s))"
| built_createUserWorkout: "built s \<Longrightarrow> built (snd (createUserWorkout insuw s))"
| built_completeUserWorkout: "built s \<Longrightarrow> built (snd (completeUserWorkout now i s))"

text \<open>A store of the running server is the constructor's, after any number of
  requests to the routes that write. (The GET routes leave the store as it is.)\<close>

inductive reachable :: "storage \<Rightarrow> bool" where
  constructed: "reachable (MemStorage_constructor t_user t_pet)"
| after_post_users: "reachable s \<Longrightarrow> reachable (snd (post_users now bu s))"
| after_post_users_stats: "reachable s \<Longrightarrow> reachable (snd (post_users_stats idParam bs s))"
| after_post_pets: "reachable s \<Longrightarrow> reachable (snd (post_pets now bp s))"
| after_patch_pets: "reachable s \<Longrightarrow> reachable (snd (patch_pets idParam b s))"
| after_post_pets_feed: "reachable s \<Longrightarrow> reachable (snd (post_pets_feed now idParam s))"
| after_post_pets_play: "reachable s \<Longrightarrow> reachable (snd (post_pets_play now idParam s))"
| after_post_pets_groom: "reachable s \<Longrightarrow> reachable (snd (post_pets_groom now idParam s))"
| after_post_users_workouts:
    "reachable s \<Longrightarrow> reachable (snd (post_users_workouts idParam bw s))"
| after_post_user_workouts_complete:
    "reachable s \<Longrightarrow> reachable (snd (post_user_workouts_complete now idParam s))"

subsection \<open>Properties of pets and stores\<close>

definition in_bounds :: "pet \<Rightarrow> bool" where
  "in_bounds p =
     (0 \<le> health p \<and> health p \<le> 100 \<and> 0 \<le> hunger p \<and> hunger p \<le> 100
      \<and> 0 \<le> happiness p \<and> happiness p \<le> 100)"

definition capped :: "pet \<Rightarrow> bool" where
  "capped p = (health p \<le> 100 \<and> hunger p \<le> 100 \<and> happiness p \<le> 100)"

definition pets_in_bounds :: "storage \<Rightarrow> bool" where
  "pets_in_bounds s = list_all (\<lambda>kp. in_bounds (snd kp)) (pets s)"

definition pets_capped :: "storage \<Rightarrow> bool" where
  "pets_capped s = list_all (\<lambda>kp. capped (snd kp)) (pets s)"

text \<open>Every pet is stored under its own id, and every assignment names a workout
  that the store holds.\<close>

definition pets_keyed_by_id :: "storage \<Rightarrow> bool" where
  "pets_keyed_by_id s =
     (distinct (map fst (pets s)) \<and> list_all (\<lambda>kp. id_pet (snd kp) = fst kp) (pets s))"

definition templates_exist :: "storage \<Rightarrow> bool" where
  "templates_exist s =
     list_all (\<lambda>kuw. getWorkout s (workoutId (snd kuw)) \<noteq> None) (userWorkouts s)"

text \<open>\<open>Number.isSafeInteger\<close>, and the sums of integers that a JavaScript \<open>+\<close> computes
  exactly.\<close>

definition safe_integer :: "int \<Rightarrow> bool" where
  "safe_integer n = (- (2 ^ 53) < n \<and> n < 2 ^ 53)"

definition exact_sum :: "int \<Rightarrow> int \<Rightarrow> bool" where
  "exact_sum a b = (safe_integer a \<and> safe_integer b \<and> safe_integer (a + b))"

subsection \<open>Example stores\<close>

text \<open>Concrete stores of the running server, on which the theorems below are
  instantiated.\<close>

definition new_year :: jsdate where
  "new_year = LocalDate 2024 0 1 0"

definition example_store :: storage where
  "example_store = MemStorage_constructor new_year new_year"

definition default_user :: user where
  "default_user = \<lparr> id_user = 1, username = ''user'', password = ''password'', streak = 0,
     caloriesBurned = 0, activeMinutes = 0, completedWorkouts = 0, createdAt = new_year \<rparr>"

definition buddy :: pet where
  "buddy = \<lparr> id_pet = 1, userId_pet = 1, name_pet = ''Buddy'', type_pet = ''cat'',
     health = 100, hunger = 100, happiness = 100, level = 1, xp = 0,
     lastFed = new_year, lastPlayed = new_year, lastGroomed = new_year \<rparr>"

definition morning_cardio :: workout where
  "morning_cardio = \<lparr> id_workout = 1, name_workout = ''Morning Cardio'',
     description = ''Energizing cardio to start your day'', duration = 20, calories = 120,
     difficulty = ''Moderate'', type_workout = ''Cardio'' \<rparr>"

definition strength_training :: workout where
  "strength_training = \<lparr> id_workout = 2, name_workout = ''Strength Training'',
     description = ''Build muscle and increase strength'', duration = 25, calories = 110,
     difficulty = ''Hard'', type_workout = ''Strength'' \<rparr>"

definition evening_yoga :: workout where
  "evening_yoga = \<lparr> id_workout = 3, name_workout = ''Evening Yoga'',
     description = ''Gentle stretching to end your day'', duration = 15, calories = 80,
     difficulty = ''Easy'', type_workout = ''Yoga'' \<rparr>"

definition played_twice :: storage where
  "played_twice =
     snd (post_pets_play (LocalDate 2024 0 1 2000) (Some 1)
       (snd (post_pets_play (LocalDate 2024 0 1 1000) (Some 1) example_store)))"

definition tired_buddy :: storage where
  "tired_buddy =
     snd (patch_pets (Some 1)
            (no_updates\<lparr> upd_happiness := Some 50, upd_health := Some 97 \<rparr>) example_store)"

definition scheduled :: storage where
  "scheduled =
     snd (post_users_workouts (Some 1)
            \<lparr> body_workoutId = 1, body_scheduledFor = LocalDate 2024 0 2 0 \<rparr> tired_buddy)"

definition completed_once :: storage where
  "completed_once =
     snd (post_user_workouts_complete (LocalDate 2024 0 2 1000) (Some 1) scheduled)"

definition with_alice :: storage where
  "with_alice =
     snd (post_users (LocalDate 2024 0 1 5000)
            \<lparr> ins_username = ''alice'', ins_password = ''secret'' \<rparr> example_store)"

definition alice_scheduled :: storage where
  "alice_scheduled =
     snd (post_users_workouts (Some 2)
            \<lparr> body_workoutId = 3, body_scheduledFor = LocalDate 2024 0 2 0 \<rparr> with_alice)"

text \<open>User 1 schedules the strength training for 1 January (assignment 1), then for
  2 January (assignment 2).\<close>

definition one_day :: storage where
  "one_day =
     snd (post_users_workouts (Some 1)
            \<lparr> body_workoutId = 2, body_scheduledFor = LocalDate 2024 0 1 32400000 \<rparr>
            example_store)"

definition two_days :: storage where
  "two_days =
     snd (post_users_workouts (Some 1)
            \<lparr> body_workoutId = 2, body_scheduledFor = LocalDate 2024 0 2 32400000 \<rparr> one_day)"

definition cardio_assignment :: userWorkout where
  "cardio_assignment = \<lparr> id_uw = 1, userId = 1, workoutId = 1, completed = False,
     scheduledFor = LocalDate 2024 0 2 0, completedAt = None \<rparr>"

definition yoga_assignment :: userWorkout where
  "yoga_assignment = \<lparr> id_uw = 1, userId = 2, workoutId = 3, completed = False,
     scheduledFor = LocalDate 2024 0 2 0, completedAt = None \<rparr>"

text \<open>A store of the class with a fourth workout, of 123 calories, scheduled for
  user 1.\<close>

definition sprint :: workout where
  "sprint = \<lparr> id_workout = 4, name_workout = ''Sprint'',
     description = ''Short and fast'', duration = 12, calories = 123,
     difficulty = ''Hard'', type_workout = ''Cardio'' \<rparr>"

definition with_sprint :: storage where
  "with_sprint =
     snd (createWorkout
            \<lparr> ins_name_workout = ''Sprint'', ins_description = ''Short and fast'',
              ins_duration = 12, ins_calories = 123, ins_difficulty = ''Hard'',
              ins_type_workout = ''Cardio'' \<rparr> tired_buddy)"

definition sprint_scheduled :: storage where
  "sprint_scheduled =
     snd (post_users_workouts (Some 1)
            \<lparr> body_workoutId = 4, body_scheduledFor = LocalDate 2024 0 2 0 \<rparr> with_sprint)"

definition sprint_assignment :: userWorkout where
  "sprint_assignment = \<lparr> id_uw = 1, userId = 1, workoutId = 4, completed = False,
     scheduledFor = LocalDate 2024 0 2 0, completedAt = None \<rparr>"

section \<open>Lemmas\<close>

subsection \<open>Rounding, association lists and the re-clamp\<close>

lemma Math_round_fifth: "Math_round (of_int c / 5) = (2 * c + 5) div 10"
  unfolding Math_round_def by linarith

lemma map_of_update: "map_of (AList.update k v al) k' = (if k' = k then Some v else map_of al k')"
  by (simp add: AList.update_conv')

lemma list_all_update:
  "list_all P al \<Longrightarrow> P (k, v) \<Longrightarrow> list_all P (AList.update k v al)"
  by (induction al) auto

lemma list_all_map_of:
  "list_all P al \<Longrightarrow> map_of al k = Some v \<Longrightarrow> P (k, v)"
  by (induction al) (auto split: if_splits)

lemma ensure_bounds_eq:
  "ensure_bounds p = p\<lparr> health := min (health p) 100, hunger := min (hunger p) 100,
                         happiness := min (happiness p) 100 \<rparr>"
  by (simp add: ensure_bounds_def Let_def min_def)

lemma capped_ensure_bounds: "capped (ensure_bounds p)"
  by (simp add: ensure_bounds_eq capped_def)

lemma ensure_bounds_capped: "capped p \<Longrightarrow> ensure_bounds p = p"
  by (simp add: ensure_bounds_eq capped_def min_def)

lemma in_bounds_capped: "in_bounds p \<Longrightarrow> capped p"
  by (simp add: in_bounds_def capped_def)

subsection \<open>The methods of the store, case by case\<close>

lemma updatePet_None: "getPet s i = None \<Longrightarrow> updatePet i u s = (None, s)"
  by (simp add: updatePet_def)

lemma updatePet_Some:
  "getPet s i = Some p \<Longrightarrow>
   updatePet i u s = (Some (ensure_bounds (spread_pet p u)),
                      s\<lparr> pets := AList.update i (ensure_bounds (spread_pet p u)) (pets s) \<rparr>)"
  by (simp add: updatePet_def Let_def)

lemma updateUserStats_None: "getUser s i = None \<Longrightarrow> updateUserStats i cb am cw s = (None, s)"
  by (simp add: updateUserStats_def)

lemma updateUserStats_Some:
  "getUser s i = Some u \<Longrightarrow>
   updateUserStats i cb am cw s =
     (Some (u\<lparr> caloriesBurned := caloriesBurned u + cb, activeMinutes := activeMinutes u + am,
               completedWorkouts := completedWorkouts u + cw \<rparr>),
      s\<lparr> users := AList.update i
             (u\<lparr> caloriesBurned := caloriesBurned u + cb, activeMinutes := activeMinutes u + am,
                  completedWorkouts := completedWorkouts u + cw \<rparr>) (users s) \<rparr>)"
  by (simp add: updateUserStats_def Let_def)

lemma updateUserStats_frame:
  "pets (snd (updateUserStats i cb am cw s)) = pets s"
  "workouts (snd (updateUserStats i cb am cw s)) = workouts s"
  "userWorkouts (snd (updateUserStats i cb am cw s)) = userWorkouts s"
  by (simp_all add: updateUserStats_def Let_def split: option.split)

lemma completeUserWorkout_None:
  "getUserWorkout s i = None \<Longrightarrow> completeUserWorkout now i s = (None, s)"
  by (simp add: completeUserWorkout_def)

lemma completeUserWorkout_Some:
  "getUserWorkout s i = Some uw \<Longrightarrow>
   completeUserWorkout now i s =
     (Some (uw\<lparr> completed := True, completedAt := Some now \<rparr>),
      s\<lparr> userWorkouts :=
           AList.update i (uw\<lparr> completed := True, completedAt := Some now \<rparr>) (userWorkouts s) \<rparr>)"
  by (simp add: completeUserWorkout_def Let_def)

lemma with_details_sel:
  "id_uw (with_details uw w) = id_uw uw"
  "userId (with_details uw w) = userId uw"
  "workoutId (with_details uw w) = workoutId uw"
  "completed (with_details uw w) = completed uw"
  "scheduledFor (with_details uw w) = scheduledFor uw"
  "completedAt (with_details uw w) = completedAt uw"
  "workout (with_details uw w) = w"
  by (simp_all add: with_details_def userWorkout.defs userWorkoutWithDetails.defs)

lemma getUserWorkoutWithDetails_Some:
  "getUserWorkout s i = Some uw \<Longrightarrow> getWorkout s (workoutId uw) = Some w \<Longrightarrow>
   getUserWorkoutWithDetails s i = Some (with_details uw (Some w))"
  by (simp add: getUserWorkoutWithDetails_def)

lemma getUserWorkoutWithDetails_None:
  "getUserWorkout s i = None \<Longrightarrow> getUserWorkoutWithDetails s i = None"
  by (simp add: getUserWorkoutWithDetails_def)


subsection \<open>Stores of the class hold capped pets\<close>

lemma pets_capped_update:
  "pets_capped s \<Longrightarrow> capped p \<Longrightarrow> pets_capped (s\<lparr> pets := AList.update i p (pets s) \<rparr>)"
  by (simp add: pets_capped_def list_all_update)

lemma built_pets_capped: "built s \<Longrightarrow> pets_capped s"
proof (induction rule: built.induct)
  case built_empty
  show ?case by (simp add: pets_capped_def empty_storage_def)
next
  case (built_createUser s now ins)
  then show ?case by (simp add: pets_capped_def createUser_def Let_def)
next
  case (built_updateUserStreak s i n)
  then show ?case by (simp add: pets_capped_def updateUserStreak_def Let_def split: option.split)
next
  case (built_updateUserStats s i cb am cw)
  then show ?case by (simp add: pets_capped_def updateUserStats_frame)
next
  case (built_createPet s now insp)
  then show ?case
    by (simp add: createPet_def Let_def pets_capped_def list_all_update capped_def)
next
  case (built_updatePet s i updates)
  then show ?case
    by (cases "getPet s i")
       (simp_all add: updatePet_None updatePet_Some pets_capped_update capped_ensure_bounds)
next
  case (built_createWorkout s insw)
  then show ?case by (simp add: pets_capped_def createWorkout_def Let_def)
next
  case (built_createUserWorkout s insuw)
  then show ?case by (simp add: pets_capped_def createUserWorkout_def Let_def)
next
  case (built_completeUserWorkout s now i)
  then show ?case
    by (simp add: pets_capped_def completeUserWorkout_def Let_def split: option.split)
qed

lemma built_pet_capped: "built s \<Longrightarrow> getPet s i = Some p \<Longrightarrow> capped p"
  using built_pets_capped [of s] list_all_map_of [of "\<lambda>kp. capped (snd kp)" "pets s" i p]
  by (simp add: pets_capped_def getPet_def)

subsection \<open>Every handler is a sequence of method calls\<close>

lemma built_constructor: "built (MemStorage_constructor tu tp)"
  unfolding MemStorage_constructor_def initializeWorkouts_def Let_def split_def
  by (intro built.intros)

lemma built_post_users: "built s \<Longrightarrow> built (snd (post_users now b s))"
  by (auto simp: post_users_def split_def Let_def split: option.split intro: built.intros)

lemma built_post_users_stats: "built s \<Longrightarrow> built (snd (post_users_stats idParam b s))"
  by (auto simp: post_users_stats_def split_def Let_def split: option.split intro: built.intros)

lemma built_post_pets: "built s \<Longrightarrow> built (snd (post_pets now b s))"
  by (auto simp: post_pets_def split_def Let_def split: option.split intro: built.intros)

lemma built_patch_pets: "built s \<Longrightarrow> built (snd (patch_pets idParam b s))"
  by (auto simp: patch_pets_def split_def Let_def split: option.split intro: built.intros)

lemma built_post_pets_feed: "built s \<Longrightarrow> built (snd (post_pets_feed now idParam s))"
  by (auto simp: post_pets_feed_def split_def Let_def split: option.split intro: built.intros)

lemma built_post_pets_play: "built s \<Longrightarrow> built (snd (post_pets_play now idParam s))"
  by (auto simp: post_pets_play_def split_def Let_def split: option.split intro: built.intros)

lemma built_post_pets_groom: "built s \<Longrightarrow> built (snd (post_pets_groom now idParam s))"
  by (auto simp: post_pets_groom_def split_def Let_def split: option.split intro: built.intros)

lemma built_post_users_workouts: "built s \<Longrightarrow> built (snd (post_users_workouts idParam b s))"
  by (auto simp: post_users_workouts_def split_def Let_def split: option.split intro: built.intros)

lemma built_post_user_workouts_complete:
  "built s \<Longrightarrow> built (snd (post_user_workouts_complete now idParam s))"
  by (auto simp: post_user_workouts_complete_def split_def Let_def split: option.split
      intro: built.intros)

lemma reachable_built: "reachable s \<Longrightarrow> built s"
  by (induction rule: reachable.induct)
     (simp_all add: built_constructor built_post_users built_post_users_stats built_post_pets
        built_patch_pets built_post_pets_feed built_post_pets_play built_post_pets_groom
        built_post_users_workouts built_post_user_workouts_complete)


subsection \<open>updatePet and the invariants of the server's stores\<close>

lemma spread_pet_sel:
  "id_pet (spread_pet p u) = or_else (upd_id u) (id_pet p)"
  "userId_pet (spread_pet p u) = or_else (upd_userId u) (userId_pet p)"
  "name_pet (spread_pet p u) = or_else (upd_name u) (name_pet p)"
  "type_pet (spread_pet p u) = or_else (upd_type u) (type_pet p)"
  "health (spread_pet p u) = or_else (upd_health u) (health p)"
  "hunger (spread_pet p u) = or_else (upd_hunger u) (hunger p)"
  "happiness (spread_pet p u) = or_else (upd_happiness u) (happiness p)"
  "level (spread_pet p u) = or_else (upd_level u) (level p)"
  "xp (spread_pet p u) = or_else (upd_xp u) (xp p)"
  "lastFed (spread_pet p u) = or_else (upd_lastFed u) (lastFed p)"
  "lastPlayed (spread_pet p u) = or_else (upd_lastPlayed u) (lastPlayed p)"
  "lastGroomed (spread_pet p u) = or_else (upd_lastGroomed u) (lastGroomed p)"
  by (simp_all add: spread_pet_def)

lemma percent_ok_or_else:
  "percent_ok v \<Longrightarrow> 0 \<le> d \<Longrightarrow> d \<le> 100 \<Longrightarrow> 0 \<le> or_else v d \<and> or_else v d \<le> 100"
  by (cases v) (simp_all add: percent_ok_def)

lemma in_bounds_updated:
  assumes "in_bounds p" "percent_ok (upd_health u)" "percent_ok (upd_hunger u)"
    "percent_ok (upd_happiness u)"
  shows "in_bounds (ensure_bounds (spread_pet p u))"
proof -
  have "0 \<le> health (spread_pet p u) \<and> health (spread_pet p u) \<le> 100"
    using assms by (simp add: spread_pet_sel percent_ok_or_else in_bounds_def)
  moreover have "0 \<le> hunger (spread_pet p u) \<and> hunger (spread_pet p u) \<le> 100"
    using assms by (simp add: spread_pet_sel percent_ok_or_else in_bounds_def)
  moreover have "0 \<le> happiness (spread_pet p u) \<and> happiness (spread_pet p u) \<le> 100"
    using assms by (simp add: spread_pet_sel percent_ok_or_else in_bounds_def)
  ultimately show ?thesis
    by (simp add: ensure_bounds_eq in_bounds_def)
qed

lemma getPet_updatePet:
  "getPet (snd (updatePet j u s)) i =
     (if i = j then map_option (\<lambda>p. ensure_bounds (spread_pet p u)) (getPet s j)
      else getPet s i)"
  by (cases "getPet s j") (simp_all add: updatePet_None updatePet_Some getPet_def map_of_update)

lemma updatePet_frame:
  "users (snd (updatePet i u s)) = users s"
  "workouts (snd (updatePet i u s)) = workouts s"
  "userWorkouts (snd (updatePet i u s)) = userWorkouts s"
  by (simp_all add: updatePet_def Let_def split: option.split)

lemma pets_in_bounds_getPet: "pets_in_bounds s \<Longrightarrow> getPet s i = Some p \<Longrightarrow> in_bounds p"
  using list_all_map_of [of "\<lambda>kp. in_bounds (snd kp)" "pets s" i p]
  by (simp add: pets_in_bounds_def getPet_def)

lemma updatePet_keeps_bounds:
  assumes "pets_in_bounds s"
    and "\<And>p. getPet s i = Some p \<Longrightarrow> in_bounds (ensure_bounds (spread_pet p u))"
  shows "pets_in_bounds (snd (updatePet i u s))"
proof (cases "getPet s i")
  case None
  then show ?thesis using assms(1) by (simp add: updatePet_None)
next
  case (Some p)
  then show ?thesis
    using assms by (simp add: updatePet_Some pets_in_bounds_def list_all_update)
qed

lemma updatePet_keeps_keys:
  assumes "pets_keyed_by_id s" "upd_id u = None"
  shows "pets_keyed_by_id (snd (updatePet i u s))"
proof (cases "getPet s i")
  case None
  then show ?thesis using assms(1) by (simp add: updatePet_None)
next
  case (Some p)
  have "id_pet p = i"
    using assms(1) Some list_all_map_of [of "\<lambda>kp. id_pet (snd kp) = fst kp" "pets s" i p]
    by (simp add: pets_keyed_by_id_def getPet_def)
  then show ?thesis
    using assms Some
    by (simp add: updatePet_Some pets_keyed_by_id_def list_all_update distinct_update
        ensure_bounds_eq spread_pet_sel)
qed

lemma no_updates_sel:
  "upd_id no_updates = None" "upd_userId no_updates = None" "upd_name no_updates = None"
  "upd_type no_updates = None" "upd_health no_updates = None" "upd_hunger no_updates = None"
  "upd_happiness no_updates = None" "upd_level no_updates = None" "upd_xp no_updates = None"
  "upd_lastFed no_updates = None" "upd_lastPlayed no_updates = None"
  "upd_lastGroomed no_updates = None"
  by (simp_all add: no_updates_def)

lemma updateSchema_parse_ok:
  "updateSchema_parse b = Some u \<Longrightarrow>
     upd_id u = None \<and> percent_ok (upd_health u) \<and> percent_ok (upd_hunger u)
     \<and> percent_ok (upd_happiness u)"
  by (auto simp: updateSchema_parse_def split: if_splits)

subsection \<open>The handlers keep the pets within bounds, under their ids, with their templates\<close>

lemma feed_keeps_bounds:
  "pets_in_bounds s \<Longrightarrow> pets_in_bounds (snd (post_pets_feed now idParam s))"
  by (auto simp: post_pets_feed_def split_def Let_def in_bounds_def percent_ok_def no_updates_sel
      split: option.split
      intro!: updatePet_keeps_bounds in_bounds_updated dest: pets_in_bounds_getPet)

lemma play_keeps_bounds:
  "pets_in_bounds s \<Longrightarrow> pets_in_bounds (snd (post_pets_play now idParam s))"
  by (auto simp: post_pets_play_def split_def Let_def in_bounds_def percent_ok_def no_updates_sel
      split: option.split
      intro!: updatePet_keeps_bounds in_bounds_updated dest: pets_in_bounds_getPet)

lemma groom_keeps_bounds:
  "pets_in_bounds s \<Longrightarrow> pets_in_bounds (snd (post_pets_groom now idParam s))"
  by (auto simp: post_pets_groom_def split_def Let_def in_bounds_def percent_ok_def no_updates_sel
      split: option.split
      intro!: updatePet_keeps_bounds in_bounds_updated dest: pets_in_bounds_getPet)

lemma patch_keeps_bounds:
  "pets_in_bounds s \<Longrightarrow> pets_in_bounds (snd (patch_pets idParam b s))"
  by (auto simp: patch_pets_def split_def Let_def
      split: option.split
      intro!: updatePet_keeps_bounds in_bounds_updated
      dest: pets_in_bounds_getPet updateSchema_parse_ok)


lemma getPetByUserId_in_store:
  "getPetByUserId s u = Some p \<Longrightarrow> \<exists>k. (k, p) \<in> set (pets s)"
  by (auto simp: getPetByUserId_def find_Some_iff in_set_conv_nth)
     (metis nth_mem prod.collapse)

lemma pets_in_bounds_member: "pets_in_bounds s \<Longrightarrow> (k, p) \<in> set (pets s) \<Longrightarrow> in_bounds p"
  by (auto simp: pets_in_bounds_def list_all_iff)

lemma getPetByUserId_frame:
  "pets s' = pets s \<Longrightarrow> getPetByUserId s' u = getPetByUserId s u"
  by (simp add: getPetByUserId_def)

lemma complete_pets:
  "pets (snd (post_user_workouts_complete now idParam s)) = pets s
   \<or> (\<exists>uw w p. getUserWorkout s (the idParam) = Some uw \<and> getWorkout s (workoutId uw) = Some w
         \<and> getPetByUserId s (userId uw) = Some p
         \<and> pets (snd (post_user_workouts_complete now idParam s))
            = pets (snd (updatePet (id_pet p)
                 (no_updates\<lparr> upd_xp := Some (xp p + Math_round (of_int (calories w) / 5)),
                              upd_happiness := Some (min (happiness p + 10) 100),
                              upd_health := Some (min (health p + 5) 100) \<rparr>) s)))"
  apply (cases idParam)
   apply (simp add: post_user_workouts_complete_def)
  apply (simp add: post_user_workouts_complete_def getUserWorkoutWithDetails_def split: option.split)
  apply (auto simp: with_details_sel completeUserWorkout_Some split_def Let_def
      updateUserStats_frame getPetByUserId_def updatePet_def getPet_def split: option.split)
  done


lemma workout_updates_in_bounds:
  assumes "in_bounds p" "in_bounds q"
  shows "in_bounds (ensure_bounds (spread_pet q
           (no_updates\<lparr> upd_xp := Some x,
                        upd_happiness := Some (min (happiness p + 10) 100),
                        upd_health := Some (min (health p + 5) 100) \<rparr>)))"
proof (rule in_bounds_updated [OF assms(2)])
  show "percent_ok (upd_health (no_updates\<lparr> upd_xp := Some x,
                        upd_happiness := Some (min (happiness p + 10) 100),
                        upd_health := Some (min (health p + 5) 100) \<rparr>))"
    using assms(1) by (simp add: percent_ok_def in_bounds_def)
  show "percent_ok (upd_hunger (no_updates\<lparr> upd_xp := Some x,
                        upd_happiness := Some (min (happiness p + 10) 100),
                        upd_health := Some (min (health p + 5) 100) \<rparr>))"
    by (simp add: percent_ok_def no_updates_sel)
  show "percent_ok (upd_happiness (no_updates\<lparr> upd_xp := Some x,
                        upd_happiness := Some (min (happiness p + 10) 100),
                        upd_health := Some (min (health p + 5) 100) \<rparr>))"
    using assms(1) by (simp add: percent_ok_def in_bounds_def)
qed


lemma complete_keeps_bounds:
  assumes "pets_in_bounds s"
  shows "pets_in_bounds (snd (post_user_workouts_complete now idParam s))"
proof -
  let ?s' = "snd (post_user_workouts_complete now idParam s)"
  from complete_pets [of now idParam s] show ?thesis
  proof (elim disjE exE conjE)
    assume "pets ?s' = pets s"
    then show ?thesis using assms by (simp add: pets_in_bounds_def)
  next
    fix uw w p
    assume p: "getPetByUserId s (userId uw) = Some p"
      and eq: "pets ?s' = pets (snd (updatePet (id_pet p)
                 (no_updates\<lparr> upd_xp := Some (xp p + Math_round (of_int (calories w) / 5)),
                              upd_happiness := Some (min (happiness p + 10) 100),
                              upd_health := Some (min (health p + 5) 100) \<rparr>) s))"
    from getPetByUserId_in_store [OF p] obtain k where "(k, p) \<in> set (pets s)" ..
    then have pb: "in_bounds p"
      by (rule pets_in_bounds_member [OF assms])
    have "pets_in_bounds (snd (updatePet (id_pet p)
                 (no_updates\<lparr> upd_xp := Some (xp p + Math_round (of_int (calories w) / 5)),
                              upd_happiness := Some (min (happiness p + 10) 100),
                              upd_health := Some (min (health p + 5) 100) \<rparr>) s))"
    proof (rule updatePet_keeps_bounds [OF assms])
      fix q assume "getPet s (id_pet p) = Some q"
      with assms have "in_bounds q" by (rule pets_in_bounds_getPet)
      with pb show "in_bounds (ensure_bounds (spread_pet q
                 (no_updates\<lparr> upd_xp := Some (xp p + Math_round (of_int (calories w) / 5)),
                              upd_happiness := Some (min (happiness p + 10) 100),
                              upd_health := Some (min (health p + 5) 100) \<rparr>)))"
        by (rule workout_updates_in_bounds)
    qed
    then show ?thesis using eq by (simp add: pets_in_bounds_def)
  qed
qed


lemma updatePet_pets_keys:
  assumes "pets_keyed_by_id s" "upd_id u = None" "pets s' = pets (snd (updatePet i u s))"
  shows "pets_keyed_by_id s'"
  using updatePet_keeps_keys [OF assms(1,2), of i] assms(3)
  by (simp add: pets_keyed_by_id_def)

lemma complete_keeps_keys:
  assumes "pets_keyed_by_id s"
  shows "pets_keyed_by_id (snd (post_user_workouts_complete now idParam s))"
proof -
  let ?s' = "snd (post_user_workouts_complete now idParam s)"
  from complete_pets [of now idParam s] show ?thesis
  proof (elim disjE exE conjE)
    assume "pets ?s' = pets s"
    then show ?thesis using assms by (simp add: pets_keyed_by_id_def)
  next
    fix uw w p
    assume eq: "pets ?s' = pets (snd (updatePet (id_pet p)
                 (no_updates\<lparr> upd_xp := Some (xp p + Math_round (of_int (calories w) / 5)),
                              upd_happiness := Some (min (happiness p + 10) 100),
                              upd_health := Some (min (health p + 5) 100) \<rparr>) s))"
    show ?thesis
      by (rule updatePet_pets_keys [OF assms _ eq]) (simp add: no_updates_sel)
  qed
qed

lemma other_handlers_pets:
  "pets (snd (post_users now bu s)) = pets s"
  "pets (snd (post_users_stats idParam bs s)) = pets s"
  "pets (snd (post_users_workouts idParam bw s)) = pets s"
  by (simp_all add: post_users_def post_users_stats_def post_users_workouts_def createUser_def
      createUserWorkout_def updateUserStats_def Let_def split_def split: option.split)

lemma post_pets_keeps_bounds:
  "pets_in_bounds s \<Longrightarrow> pets_in_bounds (snd (post_pets now b s))"
  by (simp add: post_pets_def createPet_def Let_def pets_in_bounds_def list_all_update
      in_bounds_def split: option.split)

lemma post_pets_keeps_keys:
  "pets_keyed_by_id s \<Longrightarrow> pets_keyed_by_id (snd (post_pets now b s))"
  by (simp add: post_pets_def createPet_def Let_def pets_keyed_by_id_def list_all_update
      distinct_update split: option.split)

lemma feed_keeps_keys:
  "pets_keyed_by_id s \<Longrightarrow> pets_keyed_by_id (snd (post_pets_feed now idParam s))"
  by (auto simp: post_pets_feed_def split_def Let_def no_updates_sel split: option.split
      intro!: updatePet_keeps_keys)

lemma play_keeps_keys:
  "pets_keyed_by_id s \<Longrightarrow> pets_keyed_by_id (snd (post_pets_play now idParam s))"
  by (auto simp: post_pets_play_def split_def Let_def no_updates_sel split: option.split
      intro!: updatePet_keeps_keys)

lemma groom_keeps_keys:
  "pets_keyed_by_id s \<Longrightarrow> pets_keyed_by_id (snd (post_pets_groom now idParam s))"
  by (auto simp: post_pets_groom_def split_def Let_def no_updates_sel split: option.split
      intro!: updatePet_keeps_keys)

lemma patch_keeps_keys:
  "pets_keyed_by_id s \<Longrightarrow> pets_keyed_by_id (snd (patch_pets idParam b s))"
  by (auto simp: patch_pets_def split_def Let_def split: option.split
      intro!: updatePet_keeps_keys dest: updateSchema_parse_ok)


lemma handlers_workouts:
  "workouts (snd (post_users now bu s)) = workouts s"
  "workouts (snd (post_users_stats idParam bs s)) = workouts s"
  "workouts (snd (post_pets now bp s)) = workouts s"
  "workouts (snd (patch_pets idParam b s)) = workouts s"
  "workouts (snd (post_pets_feed now idParam s)) = workouts s"
  "workouts (snd (post_pets_play now idParam s)) = workouts s"
  "workouts (snd (post_pets_groom now idParam s)) = workouts s"
  "workouts (snd (post_users_workouts idParam bw s)) = workouts s"
  by (simp_all add: post_users_def post_users_stats_def post_pets_def patch_pets_def
      post_pets_feed_def post_pets_play_def post_pets_groom_def post_users_workouts_def
      createUser_def createPet_def createUserWorkout_def updateUserStats_def updatePet_frame
      Let_def split_def split: option.split)

lemma handlers_userWorkouts:
  "userWorkouts (snd (post_users now bu s)) = userWorkouts s"
  "userWorkouts (snd (post_users_stats idParam bs s)) = userWorkouts s"
  "userWorkouts (snd (post_pets now bp s)) = userWorkouts s"
  "userWorkouts (snd (patch_pets idParam b s)) = userWorkouts s"
  "userWorkouts (snd (post_pets_feed now idParam s)) = userWorkouts s"
  "userWorkouts (snd (post_pets_play now idParam s)) = userWorkouts s"
  "userWorkouts (snd (post_pets_groom now idParam s)) = userWorkouts s"
  by (simp_all add: post_users_def post_users_stats_def post_pets_def patch_pets_def
      post_pets_feed_def post_pets_play_def post_pets_groom_def
      createUser_def createPet_def updateUserStats_def updatePet_frame
      Let_def split_def split: option.split)

lemma templates_exist_same:
  "workouts s' = workouts s \<Longrightarrow> userWorkouts s' = userWorkouts s \<Longrightarrow>
   templates_exist s \<Longrightarrow> templates_exist s'"
  by (simp add: templates_exist_def getWorkout_def)

lemma templates_exist_update:
  "workouts s' = workouts s \<Longrightarrow> userWorkouts s' = AList.update i uw (userWorkouts s) \<Longrightarrow>
   getWorkout s (workoutId uw) \<noteq> None \<Longrightarrow> templates_exist s \<Longrightarrow> templates_exist s'"
  by (simp add: templates_exist_def getWorkout_def list_all_update)

lemma schedule_keeps_templates:
  "templates_exist s \<Longrightarrow> templates_exist (snd (post_users_workouts idParam bw s))"
  by (auto simp: post_users_workouts_def createUserWorkout_def Let_def templates_exist_def
      getWorkout_def list_all_update split: option.split)

lemma templates_exist_getUserWorkout:
  "templates_exist s \<Longrightarrow> getUserWorkout s i = Some uw \<Longrightarrow> getWorkout s (workoutId uw) \<noteq> None"
  using list_all_map_of [of "\<lambda>kuw. getWorkout s (workoutId (snd kuw)) \<noteq> None" "userWorkouts s" i uw]
  by (simp add: templates_exist_def getUserWorkout_def)

lemma complete_workouts:
  "workouts (snd (post_user_workouts_complete now idParam s)) = workouts s"
  by (simp add: post_user_workouts_complete_def completeUserWorkout_def updateUserStats_frame
      updatePet_frame Let_def split_def split: option.split)

lemma complete_userWorkouts:
  "userWorkouts (snd (post_user_workouts_complete now idParam s)) = userWorkouts s
   \<or> (\<exists>i uw. getUserWorkout s i = Some uw
         \<and> userWorkouts (snd (post_user_workouts_complete now idParam s))
            = AList.update i (uw\<lparr> completed := True, completedAt := Some now \<rparr>) (userWorkouts s))"
  by (auto simp: post_user_workouts_complete_def getUserWorkoutWithDetails_def
      completeUserWorkout_Some updateUserStats_frame updatePet_frame Let_def split_def
      split: option.split)

lemma complete_keeps_templates:
  assumes "templates_exist s"
  shows "templates_exist (snd (post_user_workouts_complete now idParam s))"
  using complete_userWorkouts [of now idParam s]
proof (elim disjE exE conjE)
  assume "userWorkouts (snd (post_user_workouts_complete now idParam s)) = userWorkouts s"
  with complete_workouts show ?thesis using assms by (rule templates_exist_same)
next
  fix i uw
  assume uw: "getUserWorkout s i = Some uw"
    and eq: "userWorkouts (snd (post_user_workouts_complete now idParam s))
            = AList.update i (uw\<lparr> completed := True, completedAt := Some now \<rparr>) (userWorkouts s)"
  have "getWorkout s (workoutId (uw\<lparr> completed := True, completedAt := Some now \<rparr>)) \<noteq> None"
    using templates_exist_getUserWorkout [OF assms uw] by simp
  with complete_workouts eq show ?thesis using assms by (rule templates_exist_update)
qed

lemma constructor_pets:
  "pets (MemStorage_constructor tu tp) =
     [(1, \<lparr> id_pet = 1, userId_pet = 1, name_pet = ''Buddy'', type_pet = ''cat'',
            health = 100, hunger = 100, happiness = 100, level = 1, xp = 0,
            lastFed = tp, lastPlayed = tp, lastGroomed = tp \<rparr>)]"
  by (simp add: MemStorage_constructor_def initializeWorkouts_def createWorkout_def
      createUser_def createPet_def empty_storage_def Let_def)

lemma constructor_userWorkouts: "userWorkouts (MemStorage_constructor tu tp) = []"
  by (simp add: MemStorage_constructor_def initializeWorkouts_def createWorkout_def
      createUser_def createPet_def empty_storage_def Let_def)

lemma reachable_pets_in_bounds: "reachable s \<Longrightarrow> pets_in_bounds s"
proof (induction rule: reachable.induct)
  case (constructed t_user t_pet)
  show ?case by (simp add: pets_in_bounds_def constructor_pets in_bounds_def)
next
  case (after_post_users s now bu)
  then show ?case by (simp add: pets_in_bounds_def other_handlers_pets)
next
  case (after_post_users_stats s idParam bs)
  then show ?case by (simp add: pets_in_bounds_def other_handlers_pets)
next
  case (after_post_users_workouts s idParam bw)
  then show ?case by (simp add: pets_in_bounds_def other_handlers_pets)
qed (simp_all add: post_pets_keeps_bounds patch_keeps_bounds feed_keeps_bounds
      play_keeps_bounds groom_keeps_bounds complete_keeps_bounds)

lemma reachable_pets_keyed: "reachable s \<Longrightarrow> pets_keyed_by_id s"
proof (induction rule: reachable.induct)
  case (constructed t_user t_pet)
  show ?case by (simp add: pets_keyed_by_id_def constructor_pets)
next
  case (after_post_users s now bu)
  then show ?case by (simp add: pets_keyed_by_id_def other_handlers_pets)
next
  case (after_post_users_stats s idParam bs)
  then show ?case by (simp add: pets_keyed_by_id_def other_handlers_pets)
next
  case (after_post_users_workouts s idParam bw)
  then show ?case by (simp add: pets_keyed_by_id_def other_handlers_pets)
qed (simp_all add: post_pets_keeps_keys patch_keeps_keys feed_keeps_keys
      play_keeps_keys groom_keeps_keys complete_keeps_keys)

lemma reachable_templates: "reachable s \<Longrightarrow> templates_exist s"
proof (induction rule: reachable.induct)
  case (constructed t_user t_pet)
  show ?case by (simp add: templates_exist_def constructor_userWorkouts)
next
  case (after_post_users_workouts s idParam bw)
  then show ?case by (simp add: schedule_keeps_templates)
next
  case (after_post_user_workouts_complete s now idParam)
  then show ?case by (simp add: complete_keeps_templates)
qed (erule templates_exist_same [rotated 2], simp_all add: handlers_workouts handlers_userWorkouts)+

lemma found_pet_is_stored:
  assumes "pets_keyed_by_id s" "getPetByUserId s u = Some p"
  shows "getPet s (id_pet p) = Some p"
proof -
  from getPetByUserId_in_store [OF assms(2)] obtain k where k: "(k, p) \<in> set (pets s)" ..
  with assms(1) have "id_pet p = k"
    by (auto simp: pets_keyed_by_id_def list_all_iff)
  with k assms(1) show ?thesis
    by (simp add: getPet_def pets_keyed_by_id_def)
qed

lemma capped_feed:
  assumes "capped p"
  shows "ensure_bounds (spread_pet p
           (no_updates\<lparr> upd_hunger := Some (min (hunger p + 20) 100), upd_lastFed := Some now \<rparr>))
         = p\<lparr> hunger := min (hunger p + 20) 100, lastFed := now \<rparr>"
proof -
  have "capped (p\<lparr> hunger := min (hunger p + 20) 100, lastFed := now \<rparr>)"
    using assms by (simp add: capped_def)
  moreover have "spread_pet p
           (no_updates\<lparr> upd_hunger := Some (min (hunger p + 20) 100), upd_lastFed := Some now \<rparr>)
         = p\<lparr> hunger := min (hunger p + 20) 100, lastFed := now \<rparr>"
    by (simp add: spread_pet_def no_updates_def)
  ultimately show ?thesis by (simp only: ensure_bounds_capped)
qed

lemma capped_play:
  assumes "capped p"
  shows "ensure_bounds (spread_pet p
           (no_updates\<lparr> upd_happiness := Some (min (happiness p + 15) 100),
                        upd_hunger := Some (max (hunger p - 5) 0),
                        upd_lastPlayed := Some now \<rparr>))
         = p\<lparr> happiness := min (happiness p + 15) 100, hunger := max (hunger p - 5) 0,
              lastPlayed := now \<rparr>"
proof -
  have "capped (p\<lparr> happiness := min (happiness p + 15) 100, hunger := max (hunger p - 5) 0,
              lastPlayed := now \<rparr>)"
    using assms by (simp add: capped_def)
  moreover have "spread_pet p
           (no_updates\<lparr> upd_happiness := Some (min (happiness p + 15) 100),
                        upd_hunger := Some (max (hunger p - 5) 0),
                        upd_lastPlayed := Some now \<rparr>)
         = p\<lparr> happiness := min (happiness p + 15) 100, hunger := max (hunger p - 5) 0,
              lastPlayed := now \<rparr>"
    by (simp add: spread_pet_def no_updates_def)
  ultimately show ?thesis by (simp only: ensure_bounds_capped)
qed

lemma capped_groom:
  assumes "capped p"
  shows "ensure_bounds (spread_pet p
           (no_updates\<lparr> upd_health := Some (min (health p + 10) 100),
                        upd_lastGroomed := Some now \<rparr>))
         = p\<lparr> health := min (health p + 10) 100, lastGroomed := now \<rparr>"
proof -
  have "capped (p\<lparr> health := min (health p + 10) 100, lastGroomed := now \<rparr>)"
    using assms by (simp add: capped_def)
  moreover have "spread_pet p
           (no_updates\<lparr> upd_health := Some (min (health p + 10) 100),
                        upd_lastGroomed := Some now \<rparr>)
         = p\<lparr> health := min (health p + 10) 100, lastGroomed := now \<rparr>"
    by (simp add: spread_pet_def no_updates_def)
  ultimately show ?thesis by (simp only: ensure_bounds_capped)
qed

lemma capped_workout:
  assumes "capped p"
  shows "ensure_bounds (spread_pet p
           (no_updates\<lparr> upd_xp := Some x,
                        upd_happiness := Some (min (happiness p + 10) 100),
                        upd_health := Some (min (health p + 5) 100) \<rparr>))
         = p\<lparr> xp := x, happiness := min (happiness p + 10) 100,
              health := min (health p + 5) 100 \<rparr>"
proof -
  have "capped (p\<lparr> xp := x, happiness := min (happiness p + 10) 100,
              health := min (health p + 5) 100 \<rparr>)"
    using assms by (simp add: capped_def)
  moreover have "spread_pet p
           (no_updates\<lparr> upd_xp := Some x,
                        upd_happiness := Some (min (happiness p + 10) 100),
                        upd_health := Some (min (health p + 5) 100) \<rparr>)
         = p\<lparr> xp := x, happiness := min (happiness p + 10) 100,
              health := min (health p + 5) 100 \<rparr>"
    by (simp add: spread_pet_def no_updates_def)
  ultimately show ?thesis by (simp only: ensure_bounds_capped)
qed

lemma feed_result:
  assumes "getPet s i = Some p" "capped p"
  shows "post_pets_feed now (Some i) s =
     (Response 200 (PetJson (Some (p\<lparr> hunger := min (hunger p + 20) 100, lastFed := now \<rparr>))),
      s\<lparr> pets := AList.update i (p\<lparr> hunger := min (hunger p + 20) 100, lastFed := now \<rparr>) (pets s) \<rparr>)"
  by (simp add: post_pets_feed_def assms(1) updatePet_Some [OF assms(1)] capped_feed [OF assms(2)])

lemma play_result:
  assumes "getPet s i = Some p" "capped p"
  shows "post_pets_play now (Some i) s =
     (Response 200 (PetJson (Some (p\<lparr> happiness := min (happiness p + 15) 100,
                                      hunger := max (hunger p - 5) 0, lastPlayed := now \<rparr>))),
      s\<lparr> pets := AList.update i (p\<lparr> happiness := min (happiness p + 15) 100,
                                      hunger := max (hunger p - 5) 0, lastPlayed := now \<rparr>) (pets s) \<rparr>)"
  by (simp add: post_pets_play_def assms(1) updatePet_Some [OF assms(1)] capped_play [OF assms(2)])

lemma groom_result:
  assumes "getPet s i = Some p" "capped p"
  shows "post_pets_groom now (Some i) s =
     (Response 200 (PetJson (Some (p\<lparr> health := min (health p + 10) 100, lastGroomed := now \<rparr>))),
      s\<lparr> pets := AList.update i (p\<lparr> health := min (health p + 10) 100, lastGroomed := now \<rparr>) (pets s) \<rparr>)"
  by (simp add: post_pets_groom_def assms(1) updatePet_Some [OF assms(1)] capped_groom [OF assms(2)])

lemma reachable_pet_capped: "reachable s \<Longrightarrow> getPet s i = Some p \<Longrightarrow> capped p"
  by (rule built_pet_capped [OF reachable_built])

lemma getPet_after_update:
  "getPet (s\<lparr> pets := AList.update i p (pets s) \<rparr>) i = Some p"
  by (simp add: getPet_def map_of_update)

lemma Math_round_of_int: "Math_round (of_int n) = n"
  unfolding Math_round_def by linarith

lemma Math_round_numeral: "Math_round (numeral k) = numeral k"
  using Math_round_of_int [of "numeral k"] by simp

subsection \<open>The example stores\<close>

lemma example_store_eq:
  "example_store =
     \<lparr> users = [(1, default_user)], pets = [(1, buddy)],
       workouts = [(1, morning_cardio), (2, strength_training), (3, evening_yoga)],
       userWorkouts = [], userIdCounter = 2, petIdCounter = 2, workoutIdCounter = 4,
       userWorkoutIdCounter = 1 \<rparr>"
  by (simp add: example_store_def MemStorage_constructor_def initializeWorkouts_def
      createWorkout_def createUser_def createPet_def empty_storage_def Let_def
      default_user_def buddy_def morning_cardio_def strength_training_def evening_yoga_def)

lemma played_twice_eq:
  "played_twice =
     example_store\<lparr> pets := [(1, buddy\<lparr> hunger := 90, lastPlayed := LocalDate 2024 0 1 2000 \<rparr>)] \<rparr>"
  by (simp add: played_twice_def post_pets_play_def updatePet_def getPet_def example_store_eq
      spread_pet_def no_updates_def ensure_bounds_def Let_def buddy_def)

lemma tired_buddy_eq:
  "tired_buddy = example_store\<lparr> pets := [(1, buddy\<lparr> happiness := 50, health := 97 \<rparr>)] \<rparr>"
  by (simp add: tired_buddy_def patch_pets_def updateSchema_parse_def percent_ok_def date_ok_def
      updatePet_def getPet_def example_store_eq
      spread_pet_def no_updates_def ensure_bounds_def Let_def buddy_def)

lemma scheduled_eq:
  "scheduled = tired_buddy\<lparr> userWorkoutIdCounter := 2,
       userWorkouts := [(1, \<lparr> id_uw = 1, userId = 1, workoutId = 1, completed = False,
                               scheduledFor = LocalDate 2024 0 2 0, completedAt = None \<rparr>)] \<rparr>"
  by (simp add: scheduled_def post_users_workouts_def getWorkout_def getUserWorkoutsByUserId_def
      isDuplicate_def createUserWorkout_def tired_buddy_eq example_store_eq Let_def)

lemma completed_once_eq:
  "completed_once = example_store\<lparr>
       users := [(1, default_user\<lparr> caloriesBurned := 120, activeMinutes := 20,
                                  completedWorkouts := 1 \<rparr>)],
       pets := [(1, buddy\<lparr> happiness := 60, xp := 24 \<rparr>)],
       userWorkoutIdCounter := 2,
       userWorkouts := [(1, \<lparr> id_uw = 1, userId = 1, workoutId = 1, completed = True,
                               scheduledFor = LocalDate 2024 0 2 0,
                               completedAt = Some (LocalDate 2024 0 2 1000) \<rparr>)] \<rparr>"
  by (simp add: completed_once_def post_user_workouts_complete_def getUserWorkoutWithDetails_def
      getUserWorkout_def getWorkout_def with_details_sel completeUserWorkout_def
      updateUserStats_def getUser_def getPetByUserId_def updatePet_def getPet_def
      spread_pet_def no_updates_def ensure_bounds_def Math_round_numeral Let_def
      scheduled_eq tired_buddy_eq example_store_eq buddy_def default_user_def morning_cardio_def)

lemma with_alice_eq:
  "with_alice = example_store\<lparr> userIdCounter := 3,
       users := [(1, default_user),
                 (2, \<lparr> id_user = 2, username = ''alice'', password = ''secret'', streak = 0,
                        caloriesBurned = 0, activeMinutes = 0, completedWorkouts = 0,
                        createdAt = LocalDate 2024 0 1 5000 \<rparr>)] \<rparr>"
  by (simp add: with_alice_def post_users_def getUserByUsername_def createUser_def
      example_store_eq default_user_def Let_def)

lemma alice_scheduled_eq:
  "alice_scheduled = with_alice\<lparr> userWorkoutIdCounter := 2,
       userWorkouts := [(1, \<lparr> id_uw = 1, userId = 2, workoutId = 3, completed = False,
                               scheduledFor = LocalDate 2024 0 2 0, completedAt = None \<rparr>)] \<rparr>"
  by (simp add: alice_scheduled_def post_users_workouts_def getWorkout_def
      getUserWorkoutsByUserId_def isDuplicate_def createUserWorkout_def with_alice_eq
      example_store_eq Let_def)

lemma one_day_eq:
  "one_day = example_store\<lparr> userWorkoutIdCounter := 2,
       userWorkouts :=
         [(1, \<lparr> id_uw = 1, userId = 1, workoutId = 2, completed = False,
                 scheduledFor = LocalDate 2024 0 1 32400000, completedAt = None \<rparr>)] \<rparr>"
  by (simp add: one_day_def post_users_workouts_def getWorkout_def
      getUserWorkoutsByUserId_def isDuplicate_def createUserWorkout_def
      example_store_eq Let_def)

lemma second_day_response:
  "post_users_workouts (Some 1)
       \<lparr> body_workoutId = 2, body_scheduledFor = LocalDate 2024 0 2 32400000 \<rparr> one_day =
     (Response 201 (UserWorkoutJson (Some
        \<lparr> id_uw = 2, userId = 1, workoutId = 2, completed = False,
          scheduledFor = LocalDate 2024 0 2 32400000, completedAt = None \<rparr>)),
      example_store\<lparr> userWorkoutIdCounter := 3,
       userWorkouts :=
         [(1, \<lparr> id_uw = 1, userId = 1, workoutId = 2, completed = False,
                 scheduledFor = LocalDate 2024 0 1 32400000, completedAt = None \<rparr>),
          (2, \<lparr> id_uw = 2, userId = 1, workoutId = 2, completed = False,
                 scheduledFor = LocalDate 2024 0 2 32400000, completedAt = None \<rparr>)] \<rparr>)"
  by (simp add: post_users_workouts_def getWorkout_def
      getUserWorkoutsByUserId_def isDuplicate_def createUserWorkout_def with_details_sel
      one_day_eq example_store_eq Let_def)

lemma two_days_eq:
  "two_days = example_store\<lparr> userWorkoutIdCounter := 3,
       userWorkouts :=
         [(1, \<lparr> id_uw = 1, userId = 1, workoutId = 2, completed = False,
                 scheduledFor = LocalDate 2024 0 1 32400000, completedAt = None \<rparr>),
          (2, \<lparr> id_uw = 2, userId = 1, workoutId = 2, completed = False,
                 scheduledFor = LocalDate 2024 0 2 32400000, completedAt = None \<rparr>)] \<rparr>"
  by (simp add: two_days_def second_day_response)

lemma reachable_example_store: "reachable example_store"
  unfolding example_store_def by (rule reachable.constructed)

lemma reachable_played_twice: "reachable played_twice"
  unfolding played_twice_def by (intro reachable.intros reachable_example_store)

lemma reachable_scheduled: "reachable scheduled"
  unfolding scheduled_def tired_buddy_def by (intro reachable.intros reachable_example_store)

lemma reachable_completed_once: "reachable completed_once"
  unfolding completed_once_def by (intro reachable.intros reachable_scheduled)

lemma reachable_alice_scheduled: "reachable alice_scheduled"
  unfolding alice_scheduled_def with_alice_def
  by (intro reachable.intros reachable_example_store)

lemma played_twice_pet:
  "getPet played_twice 1 = Some (buddy\<lparr> hunger := 90, lastPlayed := LocalDate 2024 0 1 2000 \<rparr>)"
  by (simp add: getPet_def played_twice_eq)

subsection \<open>The completion handler, case by case\<close>

lemma complete_not_found:
  "getUserWorkout s i = None \<Longrightarrow>
   post_user_workouts_complete now (Some i) s =
     (Response 404 (Message ''User workout not found''), s)"
  by (simp add: post_user_workouts_complete_def getUserWorkoutWithDetails_None)

lemma complete_already:
  "getUserWorkout s i = Some uw \<Longrightarrow> getWorkout s (workoutId uw) = Some w \<Longrightarrow> completed uw \<Longrightarrow>
   post_user_workouts_complete now (Some i) s =
     (Response 400 (Message ''Workout already completed''), s)"
  by (simp add: post_user_workouts_complete_def getUserWorkoutWithDetails_Some with_details_sel)

lemma complete_success:
  assumes "getUserWorkout s i = Some uw" "getWorkout s (workoutId uw) = Some w" "\<not> completed uw"
  shows "post_user_workouts_complete now (Some i) s =
     (Response 200 (UserWorkoutJson (Some (uw\<lparr> completed := True, completedAt := Some now \<rparr>))),
      (case getPetByUserId s (userId uw) of
         None \<Rightarrow> snd (updateUserStats (userId uw) (calories w) (duration w) 1
                        (s\<lparr> userWorkouts := AList.update i
                             (uw\<lparr> completed := True, completedAt := Some now \<rparr>)
                             (userWorkouts s) \<rparr>))
       | Some p \<Rightarrow>
           snd (updatePet (id_pet p)
                  (no_updates\<lparr>
                     upd_xp := Some (xp p + Math_round (of_int (calories w) / 5)),
                     upd_happiness := Some (min (happiness p + 10) 100),
                     upd_health := Some (min (health p + 5) 100) \<rparr>)
                  (snd (updateUserStats (userId uw) (calories w) (duration w) 1
                        (s\<lparr> userWorkouts := AList.update i
                             (uw\<lparr> completed := True, completedAt := Some now \<rparr>)
                             (userWorkouts s) \<rparr>))))))"
proof -
  let ?s1 = "s\<lparr> userWorkouts := AList.update i
                 (uw\<lparr> completed := True, completedAt := Some now \<rparr>) (userWorkouts s) \<rparr>"
  have "pets (snd (updateUserStats (userId uw) (calories w) (duration w) 1 ?s1)) = pets s"
    by (simp add: updateUserStats_frame)
  then have found: "getPetByUserId (snd (updateUserStats (userId uw) (calories w) (duration w) 1 ?s1))
               (userId uw) = getPetByUserId s (userId uw)"
    by (rule getPetByUserId_frame)
  show ?thesis
    by (simp add: post_user_workouts_complete_def getUserWorkoutWithDetails_Some [OF assms(1,2)]
        with_details_sel assms(3) completeUserWorkout_Some [OF assms(1)] split_def Let_def found
        del: AList.update.simps split: option.split)
qed

lemma reachable_template:
  "reachable s \<Longrightarrow> getUserWorkout s i = Some uw \<Longrightarrow> \<exists>w. getWorkout s (workoutId uw) = Some w"
  using templates_exist_getUserWorkout [OF reachable_templates] by blast


lemma complete_success_userWorkouts:
  assumes "getUserWorkout s i = Some uw" "getWorkout s (workoutId uw) = Some w" "\<not> completed uw"
  shows "userWorkouts (snd (post_user_workouts_complete now (Some i) s)) =
           AList.update i (uw\<lparr> completed := True, completedAt := Some now \<rparr>) (userWorkouts s)"
  by (simp add: complete_success [OF assms] updateUserStats_frame updatePet_frame
      del: AList.update.simps split: option.split)

lemma complete_success_pet:
  assumes "getUserWorkout s i = Some uw" "getWorkout s (workoutId uw) = Some w" "\<not> completed uw"
    and "getPetByUserId s (userId uw) = Some p" "getPet s (id_pet p) = Some p" "capped p"
  shows "pets (snd (post_user_workouts_complete now (Some i) s)) =
           AList.update (id_pet p)
             (p\<lparr> xp := xp p + Math_round (of_int (calories w) / 5),
                  happiness := min (happiness p + 10) 100,
                  health := min (health p + 5) 100 \<rparr>) (pets s)"
proof -
  let ?s2 = "snd (updateUserStats (userId uw) (calories w) (duration w) 1
               (s\<lparr> userWorkouts := AList.update i
                    (uw\<lparr> completed := True, completedAt := Some now \<rparr>) (userWorkouts s) \<rparr>))"
  have p2: "pets ?s2 = pets s" by (simp add: updateUserStats_frame)
  then have g2: "getPet ?s2 (id_pet p) = Some p" using assms(5) by (simp add: getPet_def)
  show ?thesis
    by (simp add: complete_success [OF assms(1-3)] assms(4) updatePet_Some [OF g2]
        capped_workout [OF assms(6)] p2 del: AList.update.simps)
qed

subsection \<open>Assignments and pets of the example stores\<close>

lemma completed_once_uw:
  "getUserWorkout completed_once 1 =
     Some (cardio_assignment\<lparr> completed := True, completedAt := Some (LocalDate 2024 0 2 1000) \<rparr>)"
  by (simp add: getUserWorkout_def completed_once_eq cardio_assignment_def)

lemma scheduled_uw: "getUserWorkout scheduled 1 = Some cardio_assignment"
  by (simp add: getUserWorkout_def scheduled_eq cardio_assignment_def)

lemma cardio_not_completed: "\<not> completed cardio_assignment"
  by (simp add: cardio_assignment_def)

lemma scheduled_pet:
  "getPetByUserId scheduled (userId cardio_assignment) =
     Some (buddy\<lparr> happiness := 50, health := 97 \<rparr>)"
  by (simp add: getPetByUserId_def scheduled_eq tired_buddy_eq buddy_def cardio_assignment_def)

lemma scheduled_workout: "getWorkout scheduled (workoutId cardio_assignment) = Some morning_cardio"
  by (simp add: getWorkout_def scheduled_eq tired_buddy_eq example_store_eq cardio_assignment_def)

lemma alice_scheduled_uw: "getUserWorkout alice_scheduled 1 = Some yoga_assignment"
  by (simp add: getUserWorkout_def alice_scheduled_eq yoga_assignment_def)

lemma yoga_not_completed: "\<not> completed yoga_assignment"
  by (simp add: yoga_assignment_def)

lemma alice_scheduled_no_pet: "getPetByUserId alice_scheduled (userId yoga_assignment) = None"
  by (simp add: getPetByUserId_def alice_scheduled_eq with_alice_eq example_store_eq buddy_def
      yoga_assignment_def)

lemma alice_scheduled_workout:
  "getWorkout alice_scheduled (workoutId yoga_assignment) = Some evening_yoga"
  by (simp add: getWorkout_def alice_scheduled_eq with_alice_eq example_store_eq
      yoga_assignment_def)

lemma alice_scheduled_user:
  "getUser alice_scheduled (userId yoga_assignment) =
     Some \<lparr> id_user = 2, username = ''alice'', password = ''secret'', streak = 0,
            caloriesBurned = 0, activeMinutes = 0, completedWorkouts = 0,
            createdAt = LocalDate 2024 0 1 5000 \<rparr>"
  by (simp add: getUser_def alice_scheduled_eq with_alice_eq example_store_eq yoga_assignment_def)


lemma example_store_buddy: "getPet example_store 1 = Some buddy"
  by (simp add: getPet_def example_store_eq)

lemma built_example_store: "built example_store"
  using reachable_example_store by (rule reachable_built)

lemma scheduled_buddy: "getPet scheduled 1 = Some (buddy\<lparr> happiness := 50, health := 97 \<rparr>)"
  by (simp add: getPet_def scheduled_eq tired_buddy_eq)

lemma scheduled_in_bounds: "pets_in_bounds scheduled"
  using reachable_scheduled by (rule reachable_pets_in_bounds)

subsection \<open>One pet under the care handlers and the validated patch\<close>

lemma feed_pet_in_bounds:
  assumes "getPet s i = Some p" "in_bounds p"
  shows "\<exists>p'. getPet (snd (post_pets_feed now (Some i) s)) i = Some p' \<and> in_bounds p'"
proof -
  let ?u = "no_updates\<lparr> upd_hunger := Some (min (hunger p + 20) 100), upd_lastFed := Some now \<rparr>"
  have "snd (post_pets_feed now (Some i) s) = snd (updatePet i ?u s)"
    by (simp add: post_pets_feed_def assms(1) split_def Let_def)
  then have "getPet (snd (post_pets_feed now (Some i) s)) i = Some (ensure_bounds (spread_pet p ?u))"
    by (simp add: getPet_updatePet assms(1))
  moreover have "in_bounds (ensure_bounds (spread_pet p ?u))"
    using assms(2)
    by (rule in_bounds_updated) (use assms(2) in \<open>simp_all add: percent_ok_def in_bounds_def no_updates_sel\<close>)
  ultimately show ?thesis by blast
qed

lemma play_pet_in_bounds:
  assumes "getPet s i = Some p" "in_bounds p"
  shows "\<exists>p'. getPet (snd (post_pets_play now (Some i) s)) i = Some p' \<and> in_bounds p'"
proof -
  let ?u = "no_updates\<lparr> upd_happiness := Some (min (happiness p + 15) 100),
                        upd_hunger := Some (max (hunger p - 5) 0),
                        upd_lastPlayed := Some now \<rparr>"
  have "snd (post_pets_play now (Some i) s) = snd (updatePet i ?u s)"
    by (simp add: post_pets_play_def assms(1) split_def Let_def)
  then have "getPet (snd (post_pets_play now (Some i) s)) i = Some (ensure_bounds (spread_pet p ?u))"
    by (simp add: getPet_updatePet assms(1))
  moreover have "in_bounds (ensure_bounds (spread_pet p ?u))"
    using assms(2)
    by (rule in_bounds_updated) (use assms(2) in \<open>simp_all add: percent_ok_def in_bounds_def no_updates_sel\<close>)
  ultimately show ?thesis by blast
qed

lemma groom_pet_in_bounds:
  assumes "getPet s i = Some p" "in_bounds p"
  shows "\<exists>p'. getPet (snd (post_pets_groom now (Some i) s)) i = Some p' \<and> in_bounds p'"
proof -
  let ?u = "no_updates\<lparr> upd_health := Some (min (health p + 10) 100),
                        upd_lastGroomed := Some now \<rparr>"
  have "snd (post_pets_groom now (Some i) s) = snd (updatePet i ?u s)"
    by (simp add: post_pets_groom_def assms(1) split_def Let_def)
  then have "getPet (snd (post_pets_groom now (Some i) s)) i = Some (ensure_bounds (spread_pet p ?u))"
    by (simp add: getPet_updatePet assms(1))
  moreover have "in_bounds (ensure_bounds (spread_pet p ?u))"
    using assms(2)
    by (rule in_bounds_updated) (use assms(2) in \<open>simp_all add: percent_ok_def in_bounds_def no_updates_sel\<close>)
  ultimately show ?thesis by blast
qed

lemma patch_pet_in_bounds:
  assumes "getPet s i = Some p" "in_bounds p"
  shows "\<exists>p'. getPet (snd (patch_pets (Some i) b s)) i = Some p' \<and> in_bounds p'"
proof (cases "updateSchema_parse b")
  case None
  then have "snd (patch_pets (Some i) b s) = s" by (simp add: patch_pets_def)
  with assms show ?thesis by simp
next
  case (Some u)
  then have "snd (patch_pets (Some i) b s) = snd (updatePet i u s)"
    by (simp add: patch_pets_def split_def split: option.split)
  then have "getPet (snd (patch_pets (Some i) b s)) i = Some (ensure_bounds (spread_pet p u))"
    by (simp add: getPet_updatePet assms(1))
  moreover have "in_bounds (ensure_bounds (spread_pet p u))"
    using assms(2) updateSchema_parse_ok [OF Some] by (intro in_bounds_updated) simp_all
  ultimately show ?thesis by blast
qed

subsection \<open>What updatePet and the scheduling handler do in general\<close>

lemma updatePet_result_capped: "fst (updatePet i u s) = Some p' \<Longrightarrow> capped p'"
  by (cases "getPet s i") (auto simp: updatePet_None updatePet_Some capped_ensure_bounds)

lemma schedule_duplicate:
  assumes "0 < body_workoutId b" "getWorkout s (body_workoutId b) = Some w"
    and "isDuplicate (getUserWorkoutsByUserId s uid) (body_workoutId b) (body_scheduledFor b)"
  shows "\<exists>uw. post_users_workouts (Some uid) b s =
            (Response 200 (UserWorkoutWithDetailsJson (Some uw)), s)
          \<and> uw \<in> set (getUserWorkoutsByUserId s uid) \<and> workoutId uw = body_workoutId b"
proof -
  from assms(3) obtain x where "x \<in> set (getUserWorkoutsByUserId s uid)"
    "workoutId x = body_workoutId b"
    by (auto simp: isDuplicate_def list_ex_iff)
  then obtain uw where f: "find (\<lambda>uw. workoutId uw = body_workoutId b)
      (getUserWorkoutsByUserId s uid) = Some uw"
    by (cases "find (\<lambda>uw. workoutId uw = body_workoutId b) (getUserWorkoutsByUserId s uid)")
       (auto simp: find_None_iff)
  then have "uw \<in> set (getUserWorkoutsByUserId s uid)" "workoutId uw = body_workoutId b"
    by (auto simp: find_Some_iff)
  moreover have "post_users_workouts (Some uid) b s =
            (Response 200 (UserWorkoutWithDetailsJson (Some uw)), s)"
    using assms f by (simp add: post_users_workouts_def Let_def)
  ultimately show ?thesis by blast
qed

lemma schedule_new:
  assumes "0 < body_workoutId b" "getWorkout s (body_workoutId b) = Some w"
    and "\<not> isDuplicate (getUserWorkoutsByUserId s uid) (body_workoutId b) (body_scheduledFor b)"
  shows "post_users_workouts (Some uid) b s =
           (Response 201 (UserWorkoutJson (Some
              \<lparr> id_uw = userWorkoutIdCounter s, userId = uid, workoutId = body_workoutId b,
                completed = False, scheduledFor = body_scheduledFor b, completedAt = None \<rparr>)),
            s\<lparr> userWorkoutIdCounter := userWorkoutIdCounter s + 1,
               userWorkouts := AList.update (userWorkoutIdCounter s)
                 \<lparr> id_uw = userWorkoutIdCounter s, userId = uid, workoutId = body_workoutId b,
                   completed = False, scheduledFor = body_scheduledFor b, completedAt = None \<rparr>
                 (userWorkouts s) \<rparr>)"
  using assms by (simp add: post_users_workouts_def createUserWorkout_def Let_def)

subsection \<open>Rounding to the nearest integer, and a store with a workout of 123 calories\<close>

lemma Math_round_fifth_nearest: "\<bar>5 * Math_round (of_int c / 5) - c\<bar> \<le> 2"
  unfolding Math_round_fifth by presburger

lemma with_sprint_eq:
  "with_sprint = tired_buddy\<lparr> workoutIdCounter := 5,
       workouts := [(1, morning_cardio), (2, strength_training), (3, evening_yoga), (4, sprint)] \<rparr>"
  by (simp add: with_sprint_def createWorkout_def tired_buddy_eq example_store_eq sprint_def Let_def)

lemma sprint_scheduled_eq:
  "sprint_scheduled = with_sprint\<lparr> userWorkoutIdCounter := 2,
       userWorkouts := [(1, sprint_assignment)] \<rparr>"
  by (simp add: sprint_scheduled_def post_users_workouts_def getWorkout_def
      getUserWorkoutsByUserId_def isDuplicate_def createUserWorkout_def with_sprint_eq
      tired_buddy_eq example_store_eq sprint_assignment_def Let_def)

lemma sprint_scheduled_pets:
  "pets sprint_scheduled = [(1, buddy\<lparr> happiness := 50, health := 97 \<rparr>)]"
  by (simp add: sprint_scheduled_eq with_sprint_eq tired_buddy_eq)

lemma sprint_scheduled_keyed: "pets_keyed_by_id sprint_scheduled"
  by (simp add: pets_keyed_by_id_def sprint_scheduled_pets buddy_def)

lemma sprint_scheduled_in_bounds: "pets_in_bounds sprint_scheduled"
  by (simp add: pets_in_bounds_def sprint_scheduled_pets in_bounds_def buddy_def)

lemma sprint_scheduled_uw: "getUserWorkout sprint_scheduled 1 = Some sprint_assignment"
  by (simp add: getUserWorkout_def sprint_scheduled_eq)

lemma sprint_not_completed: "\<not> completed sprint_assignment"
  by (simp add: sprint_assignment_def)

lemma sprint_scheduled_workout:
  "getWorkout sprint_scheduled (workoutId sprint_assignment) = Some sprint"
  by (simp add: getWorkout_def sprint_scheduled_eq with_sprint_eq sprint_assignment_def)

lemma sprint_scheduled_pet:
  "getPetByUserId sprint_scheduled (userId sprint_assignment) =
     Some (buddy\<lparr> happiness := 50, health := 97 \<rparr>)"
  by (simp add: getPetByUserId_def sprint_scheduled_pets sprint_assignment_def buddy_def)

lemma reachable_invariants:
  "reachable s \<Longrightarrow> pets_keyed_by_id s \<and> pets_in_bounds s \<and> templates_exist s"
  by (simp add: reachable_pets_keyed reachable_pets_in_bounds reachable_templates)

lemma built_sprint_scheduled: "built sprint_scheduled"
  unfolding sprint_scheduled_def with_sprint_def tired_buddy_def
  by (intro built_post_users_workouts built.built_createWorkout built_patch_pets
      built_example_store)

section \<open>The specification, claim by claim\<close>

text \<open>
  Claim C3. For an existing user, \<open>updateUserStats\<close> returns the user with each of the
  three cumulative counters increased by its delta and every other field as it was, and
  stores that user; for an id without a user it returns \<open>undefined\<close> (the route's 404)
  and leaves the store alone. The sums are those of JavaScript numbers: the statement is
  about counters and deltas that are safe integers with a safe sum (below \<open>2^53\<close> in
  magnitude), where the code's \<open>+\<close> is the integer sum; the deltas may have any sign,
  the non-negative ones among them. Applied twice with (50, 10, 1) to a user whose
  counters are (0, 0, 0), it yields (100, 20, 2).
\<close>

theorem updateUserStats_adds_deltas:
  "(getUser s i = None \<longrightarrow> updateUserStats i cb am cw s = (None, s))
   \<and> (\<forall>u. getUser s i = Some u
            \<and> exact_sum (caloriesBurned u) cb \<and> exact_sum (activeMinutes u) am
            \<and> exact_sum (completedWorkouts u) cw \<longrightarrow>
         fst (updateUserStats i cb am cw s)
           = Some (u\<lparr> caloriesBurned := caloriesBurned u + cb,
                       activeMinutes := activeMinutes u + am,
                       completedWorkouts := completedWorkouts u + cw \<rparr>)
         \<and> getUser (snd (updateUserStats i cb am cw s)) i = fst (updateUserStats i cb am cw s))
   \<and> (\<forall>u. getUser s i = Some u \<and> caloriesBurned u = 0 \<and> activeMinutes u = 0
            \<and> completedWorkouts u = 0 \<longrightarrow>
         fst (updateUserStats i 50 10 1 (snd (updateUserStats i 50 10 1 s)))
           = Some (u\<lparr> caloriesBurned := 100, activeMinutes := 20, completedWorkouts := 2 \<rparr>))"
  by (simp add: updateUserStats_def getUser_def map_of_update Let_def)

theorem updateUserStats_adds_deltas_witness:
  "getUser example_store 1 = Some default_user
   \<and> exact_sum (caloriesBurned default_user) 50 \<and> exact_sum (activeMinutes default_user) 10
   \<and> exact_sum (completedWorkouts default_user) 1
   \<and> fst (updateUserStats 1 50 10 1 example_store) =
       Some (default_user\<lparr> caloriesBurned := 50, activeMinutes := 10, completedWorkouts := 1 \<rparr>)
   \<and> fst (updateUserStats 1 50 10 1 (snd (updateUserStats 1 50 10 1 example_store))) =
       Some (default_user\<lparr> caloriesBurned := 100, activeMinutes := 20, completedWorkouts := 2 \<rparr>)
   \<and> getUser example_store 7 = None
   \<and> updateUserStats 7 50 10 1 example_store = (None, example_store)"
  using updateUserStats_adds_deltas [of example_store 1 50 10 1]
    updateUserStats_adds_deltas [of example_store 7 50 10 1]
  by (simp add: getUser_def example_store_eq default_user_def exact_sum_def safe_integer_def)

text \<open>
  Claim C8. The message effect of the pet context classifies a pet by the first of these
  that holds: hunger below 30 is "hungry", else happiness below 30 is "unhappy", else
  health below 30 is "unhealthy", else happiness and health both above 80 is "happy",
  else the default. A pet with hunger 20, happiness 90 and health 90 is "hungry".
\<close>

theorem pet_mood_precedence:
  "(pet_mood p = hungry \<longleftrightarrow> hunger p < 30)
   \<and> (pet_mood p = unhappy \<longleftrightarrow> \<not> hunger p < 30 \<and> happiness p < 30)
   \<and> (pet_mood p = unhealthy \<longleftrightarrow> \<not> hunger p < 30 \<and> \<not> happiness p < 30 \<and> health p < 30)
   \<and> (pet_mood p = happy \<longleftrightarrow>
        \<not> hunger p < 30 \<and> \<not> happiness p < 30 \<and> \<not> health p < 30
        \<and> happiness p > 80 \<and> health p > 80)
   \<and> (pet_mood p = default \<longleftrightarrow>
        \<not> hunger p < 30 \<and> \<not> happiness p < 30 \<and> \<not> health p < 30
        \<and> \<not> (happiness p > 80 \<and> health p > 80))
   \<and> (hunger p = 20 \<and> happiness p = 90 \<and> health p = 90 \<longrightarrow> pet_mood p = hungry)
   \<and> message_effect (Some p) m = petMessages (pet_mood p)
   \<and> message_effect None m = m"
  by (simp add: pet_mood_def message_effect_def)

theorem pet_mood_precedence_witness:
  "pet_mood \<lparr> id_pet = 1, userId_pet = 1, name_pet = ''Buddy'', type_pet = ''cat'',
       health = 90, hunger = 20, happiness = 90, level = 1, xp = 0,
       lastFed = new_year, lastPlayed = new_year, lastGroomed = new_year \<rparr> = hungry"
  using pet_mood_precedence [of "\<lparr> id_pet = 1, userId_pet = 1, name_pet = ''Buddy'',
       type_pet = ''cat'', health = 90, hunger = 20, happiness = 90, level = 1, xp = 0,
       lastFed = new_year, lastPlayed = new_year, lastGroomed = new_year \<rparr>"]
  by simp

text \<open>
  Claim C6. On a pet of the running server, feed answers with the pet whose hunger is
  \<open>min (hunger + 20) 100\<close> and whose \<open>lastFed\<close> is the current time; play with the
  pet whose happiness is \<open>min (happiness + 15) 100\<close>, whose hunger is
  \<open>max (hunger - 5) 0\<close> and whose \<open>lastPlayed\<close> is the current time; groom with
  the pet whose health is \<open>min (health + 10) 100\<close> and whose \<open>lastGroomed\<close> is the
  current time. Every other field of the pet, \<open>xp\<close> and \<open>level\<close> among them, and every
  other pet stay as they were. Feeding twice from hunger 90 gives hunger 100 both times.
\<close>

theorem care_actions:
  assumes "reachable s" and "getPet s i = Some p"
  shows
    "post_pets_feed now (Some i) s =
       (Response 200 (PetJson (Some (p\<lparr> hunger := min (hunger p + 20) 100, lastFed := now \<rparr>))),
        s\<lparr> pets := AList.update i
               (p\<lparr> hunger := min (hunger p + 20) 100, lastFed := now \<rparr>) (pets s) \<rparr>)
     \<and> post_pets_play now (Some i) s =
       (Response 200 (PetJson (Some (p\<lparr> happiness := min (happiness p + 15) 100,
                                        hunger := max (hunger p - 5) 0, lastPlayed := now \<rparr>))),
        s\<lparr> pets := AList.update i
               (p\<lparr> happiness := min (happiness p + 15) 100,
                    hunger := max (hunger p - 5) 0, lastPlayed := now \<rparr>) (pets s) \<rparr>)
     \<and> post_pets_groom now (Some i) s =
       (Response 200 (PetJson (Some (p\<lparr> health := min (health p + 10) 100, lastGroomed := now \<rparr>))),
        s\<lparr> pets := AList.update i
               (p\<lparr> health := min (health p + 10) 100, lastGroomed := now \<rparr>) (pets s) \<rparr>)
     \<and> (hunger p = 90 \<longrightarrow>
          map_option hunger (getPet (snd (post_pets_feed now (Some i) s)) i) = Some 100
          \<and> map_option hunger
               (getPet (snd (post_pets_feed now' (Some i) (snd (post_pets_feed now (Some i) s)))) i)
              = Some 100)"
proof -
  have c: "capped p" using assms by (rule reachable_pet_capped)
  let ?p1 = "p\<lparr> hunger := min (hunger p + 20) 100, lastFed := now \<rparr>"
  let ?s1 = "s\<lparr> pets := AList.update i ?p1 (pets s) \<rparr>"
  have feed: "post_pets_feed now (Some i) s = (Response 200 (PetJson (Some ?p1)), ?s1)"
    using assms(2) c by (rule feed_result)
  have play: "post_pets_play now (Some i) s =
       (Response 200 (PetJson (Some (p\<lparr> happiness := min (happiness p + 15) 100,
                                        hunger := max (hunger p - 5) 0, lastPlayed := now \<rparr>))),
        s\<lparr> pets := AList.update i
               (p\<lparr> happiness := min (happiness p + 15) 100,
                    hunger := max (hunger p - 5) 0, lastPlayed := now \<rparr>) (pets s) \<rparr>)"
    using assms(2) c by (rule play_result)
  have groom: "post_pets_groom now (Some i) s =
       (Response 200 (PetJson (Some (p\<lparr> health := min (health p + 10) 100, lastGroomed := now \<rparr>))),
        s\<lparr> pets := AList.update i
               (p\<lparr> health := min (health p + 10) 100, lastGroomed := now \<rparr>) (pets s) \<rparr>)"
    using assms(2) c by (rule groom_result)
  have twice: "map_option hunger (getPet (snd (post_pets_feed now (Some i) s)) i) = Some 100
          \<and> map_option hunger
               (getPet (snd (post_pets_feed now' (Some i) (snd (post_pets_feed now (Some i) s)))) i)
              = Some 100" if h: "hunger p = 90"
  proof -
    have g1: "getPet ?s1 i = Some ?p1" by (rule getPet_after_update)
    have c1: "capped ?p1" using c by (simp add: capped_def)
    have second: "post_pets_feed now' (Some i) ?s1 =
       (Response 200 (PetJson (Some (?p1\<lparr> hunger := min (hunger ?p1 + 20) 100, lastFed := now' \<rparr>))),
        ?s1\<lparr> pets := AList.update i
               (?p1\<lparr> hunger := min (hunger ?p1 + 20) 100, lastFed := now' \<rparr>) (pets ?s1) \<rparr>)"
      using g1 c1 by (rule feed_result)
    have "getPet (snd (post_pets_feed now (Some i) s)) i = Some ?p1"
      by (simp only: feed snd_conv g1)
    moreover have "getPet (snd (post_pets_feed now' (Some i) (snd (post_pets_feed now (Some i) s)))) i
        = Some (?p1\<lparr> hunger := min (hunger ?p1 + 20) 100, lastFed := now' \<rparr>)"
      by (simp only: feed second snd_conv getPet_after_update)
    ultimately show ?thesis using h by simp
  qed
  from feed play groom twice show ?thesis by blast
qed

theorem care_actions_witness:
  "reachable played_twice
   \<and> map_option hunger (getPet played_twice 1) = Some 90
   \<and> map_option hunger
        (getPet (snd (post_pets_feed (LocalDate 2024 0 1 3000) (Some 1) played_twice)) 1) = Some 100
   \<and> map_option hunger
        (getPet (snd (post_pets_feed (LocalDate 2024 0 1 4000) (Some 1)
           (snd (post_pets_feed (LocalDate 2024 0 1 3000) (Some 1) played_twice)))) 1) = Some 100"
proof -
  let ?p = "buddy\<lparr> hunger := 90, lastPlayed := LocalDate 2024 0 1 2000 \<rparr>"
  have "hunger ?p = 90 \<longrightarrow>
      map_option hunger
        (getPet (snd (post_pets_feed (LocalDate 2024 0 1 3000) (Some 1) played_twice)) 1) = Some 100
      \<and> map_option hunger
        (getPet (snd (post_pets_feed (LocalDate 2024 0 1 4000) (Some 1)
           (snd (post_pets_feed (LocalDate 2024 0 1 3000) (Some 1) played_twice)))) 1) = Some 100"
    using care_actions [OF reachable_played_twice played_twice_pet,
      of "LocalDate 2024 0 1 3000" "LocalDate 2024 0 1 4000"]
    by (elim conjE)
  moreover have "hunger ?p = 90" by simp
  ultimately have "map_option hunger
        (getPet (snd (post_pets_feed (LocalDate 2024 0 1 3000) (Some 1) played_twice)) 1) = Some 100
      \<and> map_option hunger
        (getPet (snd (post_pets_feed (LocalDate 2024 0 1 4000) (Some 1)
           (snd (post_pets_feed (LocalDate 2024 0 1 3000) (Some 1) played_twice)))) 1) = Some 100"
    by (rule mp)
  moreover have "map_option hunger (getPet played_twice 1) = Some 90"
    by (simp add: played_twice_pet)
  ultimately show ?thesis using reachable_played_twice by (intro conjI) (elim conjE, assumption)+
qed

text \<open>
  Claim C1. In every store of the running server, completing an assignment whose
  \<open>completed\<close> flag is already true is answered with 400 "Workout already completed"
  and the store is left exactly as it was: no user counter, no pet attribute and no
  assignment changes. Hence, once a completion has succeeded (200), completing the same
  assignment again is rejected and changes nothing: stats and XP are awarded at most once.
\<close>

theorem complete_rejects_completed:
  assumes "reachable s"
  shows "(\<forall>uw. getUserWorkout s i = Some uw \<and> completed uw \<longrightarrow>
            post_user_workouts_complete now (Some i) s =
              (Response 400 (Message ''Workout already completed''), s))
       \<and> (status (fst (post_user_workouts_complete now (Some i) s)) = 200 \<longrightarrow>
            post_user_workouts_complete now' (Some i)
                (snd (post_user_workouts_complete now (Some i) s)) =
              (Response 400 (Message ''Workout already completed''),
               snd (post_user_workouts_complete now (Some i) s)))"
proof -
  have rejected: "post_user_workouts_complete t (Some i) s' =
              (Response 400 (Message ''Workout already completed''), s')"
    if "reachable s'" "getUserWorkout s' i = Some uw" "completed uw" for s' uw t
  proof -
    from reachable_template [OF that(1,2)] obtain w where "getWorkout s' (workoutId uw) = Some w" ..
    with that(2) show ?thesis using that(3) by (rule complete_already)
  qed
  have again: "post_user_workouts_complete now' (Some i)
                (snd (post_user_workouts_complete now (Some i) s)) =
              (Response 400 (Message ''Workout already completed''),
               snd (post_user_workouts_complete now (Some i) s))"
    if ok: "status (fst (post_user_workouts_complete now (Some i) s)) = 200"
  proof (cases "getUserWorkout s i")
    case None
    then show ?thesis using ok by (simp add: complete_not_found)
  next
    case (Some uw)
    from reachable_template [OF assms Some] obtain w where w: "getWorkout s (workoutId uw) = Some w" ..
    show ?thesis
    proof (cases "completed uw")
      case True
      then show ?thesis using ok by (simp add: complete_already [OF Some w])
    next
      case False
      let ?s' = "snd (post_user_workouts_complete now (Some i) s)"
      have "reachable ?s'" using assms by (rule after_post_user_workouts_complete)
      moreover have "getUserWorkout ?s' i = Some (uw\<lparr> completed := True, completedAt := Some now \<rparr>)"
        by (simp add: getUserWorkout_def complete_success_userWorkouts [OF Some w False]
            map_of_update)
      moreover have "completed (uw\<lparr> completed := True, completedAt := Some now \<rparr>)" by simp
      ultimately show ?thesis by (rule rejected)
    qed
  qed
  from rejected [OF assms] again show ?thesis by blast
qed

theorem complete_rejects_completed_witness:
  "reachable completed_once
   \<and> map_option completed (getUserWorkout completed_once 1) = Some True
   \<and> post_user_workouts_complete (LocalDate 2024 0 3 0) (Some 1) completed_once =
       (Response 400 (Message ''Workout already completed''), completed_once)
   \<and> map_option xp (getPet completed_once 1) = Some 24
   \<and> reachable scheduled
   \<and> status (fst (post_user_workouts_complete (LocalDate 2024 0 2 1000) (Some 1) scheduled)) = 200
   \<and> post_user_workouts_complete (LocalDate 2024 0 3 0) (Some 1)
         (snd (post_user_workouts_complete (LocalDate 2024 0 2 1000) (Some 1) scheduled)) =
       (Response 400 (Message ''Workout already completed''),
        snd (post_user_workouts_complete (LocalDate 2024 0 2 1000) (Some 1) scheduled))"
proof -
  have st: "status (fst (post_user_workouts_complete (LocalDate 2024 0 2 1000) (Some 1) scheduled)) = 200"
    by (simp add: complete_success [OF scheduled_uw scheduled_workout cardio_not_completed])
  have xp: "map_option xp (getPet completed_once 1) = Some 24"
    by (simp add: getPet_def completed_once_eq)
  have c: "map_option completed (getUserWorkout completed_once 1) = Some True"
    by (simp add: completed_once_uw)
  from complete_rejects_completed [OF reachable_completed_once, of 1 "LocalDate 2024 0 3 0"]
  have a: "post_user_workouts_complete (LocalDate 2024 0 3 0) (Some 1) completed_once =
       (Response 400 (Message ''Workout already completed''), completed_once)"
    by (simp add: completed_once_uw)
  from complete_rejects_completed [OF reachable_scheduled, of 1 "LocalDate 2024 0 2 1000"
      "LocalDate 2024 0 3 0"] st
  have b: "post_user_workouts_complete (LocalDate 2024 0 3 0) (Some 1)
         (snd (post_user_workouts_complete (LocalDate 2024 0 2 1000) (Some 1) scheduled)) =
       (Response 400 (Message ''Workout already completed''),
        snd (post_user_workouts_complete (LocalDate 2024 0 2 1000) (Some 1) scheduled))"
    by blast
  from reachable_completed_once c a xp reachable_scheduled st b show ?thesis by blast
qed

text \<open>
  Claim C7. Completing an uncompleted assignment whose user has a pet replaces that pet,
  and no other, by the pet with happiness \<open>min (happiness + 10) 100\<close>, health
  \<open>min (health + 5) 100\<close> and \<open>xp\<close> increased by \<open>Math.round(calories / 5)\<close>, the
  integer nearest to a fifth of the calories of the assignment's workout; hunger, the
  three last-care times and every other field are those of the pet before. This holds in
  every store whose pets are kept under their ids with attributes in \<open>[0, 100]\<close>, as they
  are in every store of the running server (\<open>reachable_invariants\<close>), for any workout
  whose calories are below \<open>2^50\<close> in magnitude and any \<open>xp\<close> below \<open>2^52\<close>: there the
  quotient, the rounding and the sum of the code's doubles are the exact ones.
\<close>

theorem complete_updates_pet:
  assumes "pets_keyed_by_id s" and "pets_in_bounds s"
    and "getUserWorkout s i = Some uw" and "\<not> completed uw"
    and "getWorkout s (workoutId uw) = Some w"
    and "getPetByUserId s (userId uw) = Some p"
    and "\<bar>calories w\<bar> < 2 ^ 50" and "\<bar>xp p\<bar> < 2 ^ 52"
  shows "\<exists>g. \<bar>5 * g - calories w\<bar> \<le> 2
     \<and> exact_sum (xp p) g
     \<and> status (fst (post_user_workouts_complete now (Some i) s)) = 200
     \<and> pets (snd (post_user_workouts_complete now (Some i) s)) =
         AList.update (id_pet p)
           (p\<lparr> xp := xp p + g,
                happiness := min (happiness p + 10) 100,
                health := min (health p + 5) 100 \<rparr>) (pets s)
     \<and> getPet (snd (post_user_workouts_complete now (Some i) s)) (id_pet p) =
         Some (p\<lparr> xp := xp p + g,
                   happiness := min (happiness p + 10) 100,
                   health := min (health p + 5) 100 \<rparr>)"
proof -
  let ?g = "Math_round (of_int (calories w) / 5)"
  have stored: "getPet s (id_pet p) = Some p"
    using assms(1,6) by (rule found_pet_is_stored)
  have c: "capped p"
    using pets_in_bounds_getPet [OF assms(2) stored] by (rule in_bounds_capped)
  have near: "\<bar>5 * ?g - calories w\<bar> \<le> 2" by (rule Math_round_fifth_nearest)
  have "\<bar>?g\<bar> < 2 ^ 50" using near assms(7) by linarith
  then have ex: "exact_sum (xp p) ?g"
    using assms(8) by (simp add: exact_sum_def safe_integer_def; arith)
  have st: "status (fst (post_user_workouts_complete now (Some i) s)) = 200"
    by (simp add: complete_success [OF assms(3,5,4)])
  note ps = complete_success_pet [OF assms(3,5,4,6) stored c, of now]
  have "getPet (snd (post_user_workouts_complete now (Some i) s)) (id_pet p) =
         Some (p\<lparr> xp := xp p + ?g,
                   happiness := min (happiness p + 10) 100,
                   health := min (health p + 5) 100 \<rparr>)"
    by (simp add: getPet_def ps map_of_update)
  with near ex st ps show ?thesis by blast
qed

theorem complete_updates_pet_witness:
  "built sprint_scheduled
   \<and> pets_keyed_by_id sprint_scheduled \<and> pets_in_bounds sprint_scheduled
   \<and> getUserWorkout sprint_scheduled 1 = Some sprint_assignment
   \<and> completed sprint_assignment = False
   \<and> getWorkout sprint_scheduled (workoutId sprint_assignment) = Some sprint
   \<and> calories sprint = 123
   \<and> getPetByUserId sprint_scheduled (userId sprint_assignment) =
       Some (buddy\<lparr> happiness := 50, health := 97 \<rparr>)
   \<and> getPet (snd (post_user_workouts_complete (LocalDate 2024 0 2 1000) (Some 1)
         sprint_scheduled)) 1 =
       Some (buddy\<lparr> xp := 25, happiness := 60, health := 100 \<rparr>)
   \<and> reachable scheduled
   \<and> getWorkout scheduled (workoutId cardio_assignment) = Some morning_cardio
   \<and> calories morning_cardio = 120
   \<and> getPet (snd (post_user_workouts_complete (LocalDate 2024 0 2 1000) (Some 1) scheduled)) 1 =
       Some (buddy\<lparr> xp := 24, happiness := 60, health := 100 \<rparr>)"
proof -
  let ?p = "buddy\<lparr> happiness := 50, health := 97 \<rparr>"
  have b2: "\<bar>xp ?p\<bar> < 2 ^ 52" by (simp add: buddy_def)
  have cal: "calories sprint = 123" by (simp add: sprint_def)
  have b1: "\<bar>calories sprint\<bar> < 2 ^ 50" by (simp add: cal)
  from complete_updates_pet [OF sprint_scheduled_keyed sprint_scheduled_in_bounds
      sprint_scheduled_uw sprint_not_completed sprint_scheduled_workout sprint_scheduled_pet
      b1 b2, of "LocalDate 2024 0 2 1000"]
  obtain g where near: "\<bar>5 * g - calories sprint\<bar> \<le> 2"
    and pet: "getPet (snd (post_user_workouts_complete (LocalDate 2024 0 2 1000) (Some 1)
         sprint_scheduled)) (id_pet ?p) =
       Some (?p\<lparr> xp := xp ?p + g, happiness := min (happiness ?p + 10) 100,
                 health := min (health ?p + 5) 100 \<rparr>)"
    by blast
  from near have "g = 25" unfolding cal by presburger
  with pet have sprint_pet:
    "getPet (snd (post_user_workouts_complete (LocalDate 2024 0 2 1000) (Some 1)
         sprint_scheduled)) 1 =
       Some (buddy\<lparr> xp := 25, happiness := 60, health := 100 \<rparr>)"
    by (simp add: buddy_def)
  have cal': "calories morning_cardio = 120" by (simp add: morning_cardio_def)
  have b1': "\<bar>calories morning_cardio\<bar> < 2 ^ 50" by (simp add: cal')
  from complete_updates_pet [OF reachable_pets_keyed [OF reachable_scheduled]
      reachable_pets_in_bounds [OF reachable_scheduled]
      scheduled_uw cardio_not_completed scheduled_workout scheduled_pet
      b1' b2, of "LocalDate 2024 0 2 1000"]
  obtain h where near': "\<bar>5 * h - calories morning_cardio\<bar> \<le> 2"
    and pet': "getPet (snd (post_user_workouts_complete (LocalDate 2024 0 2 1000) (Some 1)
         scheduled)) (id_pet ?p) =
       Some (?p\<lparr> xp := xp ?p + h, happiness := min (happiness ?p + 10) 100,
                 health := min (health ?p + 5) 100 \<rparr>)"
    by blast
  from near' have "h = 24" unfolding cal' by presburger
  with pet' have cardio_pet:
    "getPet (snd (post_user_workouts_complete (LocalDate 2024 0 2 1000) (Some 1) scheduled)) 1 =
       Some (buddy\<lparr> xp := 24, happiness := 60, health := 100 \<rparr>)"
    by (simp add: buddy_def)
  have "completed sprint_assignment = False" by (simp add: sprint_assignment_def)
  with sprint_pet cardio_pet show ?thesis
    using built_sprint_scheduled sprint_scheduled_keyed sprint_scheduled_in_bounds
      sprint_scheduled_uw sprint_scheduled_workout cal sprint_scheduled_pet reachable_scheduled
      scheduled_workout cal'
    by blast
qed

text \<open>
  Claim C9. Completing an id without an assignment is answered with 404 and the store is
  left as it was. In every store of the running server, completing an uncompleted
  assignment whose user has no pet is answered with 200 and the completed assignment: the
  assignment is stored as completed, the pets are left as they were, and the counters of
  the owning user grow by the workout's calories, its duration and one (the sums of safe
  integers with a safe sum, where the code's \<open>+\<close> is the integer sum).
\<close>

theorem complete_without_assignment_or_pet:
  "(getUserWorkout s i = None \<longrightarrow>
      post_user_workouts_complete now (Some i) s =
        (Response 404 (Message ''User workout not found''), s))
   \<and> (reachable s \<and> getUserWorkout s i = Some uw \<and> \<not> completed uw
        \<and> getPetByUserId s (userId uw) = None \<longrightarrow>
      (\<exists>w. getWorkout s (workoutId uw) = Some w
        \<and> fst (post_user_workouts_complete now (Some i) s) =
            Response 200
              (UserWorkoutJson (Some (uw\<lparr> completed := True, completedAt := Some now \<rparr>)))
        \<and> pets (snd (post_user_workouts_complete now (Some i) s)) = pets s
        \<and> userWorkouts (snd (post_user_workouts_complete now (Some i) s)) =
            AList.update i (uw\<lparr> completed := True, completedAt := Some now \<rparr>) (userWorkouts s)
        \<and> getUserWorkout (snd (post_user_workouts_complete now (Some i) s)) i =
            Some (uw\<lparr> completed := True, completedAt := Some now \<rparr>)
        \<and> (\<forall>u. getUser s (userId uw) = Some u
                \<and> exact_sum (caloriesBurned u) (calories w)
                \<and> exact_sum (activeMinutes u) (duration w)
                \<and> exact_sum (completedWorkouts u) 1 \<longrightarrow>
              getUser (snd (post_user_workouts_complete now (Some i) s)) (userId uw) =
                Some (u\<lparr> caloriesBurned := caloriesBurned u + calories w,
                          activeMinutes := activeMinutes u + duration w,
                          completedWorkouts := completedWorkouts u + 1 \<rparr>))))"
proof (intro conjI impI)
  assume "getUserWorkout s i = None"
  then show "post_user_workouts_complete now (Some i) s =
        (Response 404 (Message ''User workout not found''), s)"
    by (rule complete_not_found)
next
  assume a: "reachable s \<and> getUserWorkout s i = Some uw \<and> \<not> completed uw
        \<and> getPetByUserId s (userId uw) = None"
  then have r: "reachable s" and g: "getUserWorkout s i = Some uw" and n: "\<not> completed uw"
    and np: "getPetByUserId s (userId uw) = None" by simp_all
  from reachable_template [OF r g] obtain w where w: "getWorkout s (workoutId uw) = Some w" ..
  let ?uw' = "uw\<lparr> completed := True, completedAt := Some now \<rparr>"
  let ?s1 = "s\<lparr> userWorkouts := AList.update i ?uw' (userWorkouts s) \<rparr>"
  let ?s' = "snd (post_user_workouts_complete now (Some i) s)"
  have res: "post_user_workouts_complete now (Some i) s =
            (Response 200 (UserWorkoutJson (Some ?uw')),
             snd (updateUserStats (userId uw) (calories w) (duration w) 1 ?s1))"
    by (simp add: complete_success [OF g w n] np del: AList.update.simps)
  have f: "fst (post_user_workouts_complete now (Some i) s) =
            Response 200 (UserWorkoutJson (Some ?uw'))"
    by (simp add: res)
  have p: "pets ?s' = pets s"
    by (simp add: res updateUserStats_frame)
  have us: "userWorkouts ?s' = AList.update i ?uw' (userWorkouts s)"
    by (rule complete_success_userWorkouts [OF g w n])
  have u: "getUserWorkout ?s' i = Some ?uw'"
    by (simp add: getUserWorkout_def us map_of_update)
  have st: "getUser ?s' (userId uw) =
                Some (u\<lparr> caloriesBurned := caloriesBurned u + calories w,
                          activeMinutes := activeMinutes u + duration w,
                          completedWorkouts := completedWorkouts u + 1 \<rparr>)"
    if "getUser s (userId uw) = Some u" for u
  proof -
    have "getUser ?s1 (userId uw) = Some u" using that by (simp add: getUser_def)
    then show ?thesis
      by (simp add: res updateUserStats_Some getUser_def map_of_update)
  qed
  from w f p us u st
  show "\<exists>w. getWorkout s (workoutId uw) = Some w
        \<and> fst (post_user_workouts_complete now (Some i) s) =
            Response 200 (UserWorkoutJson (Some ?uw'))
        \<and> pets ?s' = pets s
        \<and> userWorkouts ?s' = AList.update i ?uw' (userWorkouts s)
        \<and> getUserWorkout ?s' i = Some ?uw'
        \<and> (\<forall>u. getUser s (userId uw) = Some u
                \<and> exact_sum (caloriesBurned u) (calories w)
                \<and> exact_sum (activeMinutes u) (duration w)
                \<and> exact_sum (completedWorkouts u) 1 \<longrightarrow>
              getUser ?s' (userId uw) =
                Some (u\<lparr> caloriesBurned := caloriesBurned u + calories w,
                          activeMinutes := activeMinutes u + duration w,
                          completedWorkouts := completedWorkouts u + 1 \<rparr>))"
    by blast
qed

theorem complete_without_assignment_or_pet_witness:
  "getUserWorkout example_store 9 = None
   \<and> post_user_workouts_complete (LocalDate 2024 0 2 2000) (Some 9) example_store =
       (Response 404 (Message ''User workout not found''), example_store)
   \<and> reachable alice_scheduled
   \<and> getUserWorkout alice_scheduled 1 = Some yoga_assignment
   \<and> completed yoga_assignment = False
   \<and> getPetByUserId alice_scheduled (userId yoga_assignment) = None
   \<and> map_option (\<lambda>u. (caloriesBurned u, activeMinutes u, completedWorkouts u))
        (getUser alice_scheduled 2) = Some (0, 0, 0)
   \<and> exact_sum 0 80 \<and> exact_sum 0 15 \<and> exact_sum 0 1
   \<and> status (fst (post_user_workouts_complete (LocalDate 2024 0 2 2000) (Some 1) alice_scheduled))
       = 200
   \<and> pets (snd (post_user_workouts_complete (LocalDate 2024 0 2 2000) (Some 1) alice_scheduled))
       = pets alice_scheduled
   \<and> map_option completed
        (getUserWorkout
           (snd (post_user_workouts_complete (LocalDate 2024 0 2 2000) (Some 1) alice_scheduled)) 1)
       = Some True
   \<and> map_option (\<lambda>u. (caloriesBurned u, activeMinutes u, completedWorkouts u))
        (getUser
           (snd (post_user_workouts_complete (LocalDate 2024 0 2 2000) (Some 1) alice_scheduled)) 2)
       = Some (80, 15, 1)"
proof -
  have none: "getUserWorkout example_store 9 = None"
    by (simp add: getUserWorkout_def example_store_eq)
  with complete_without_assignment_or_pet [where s = example_store and i = 9
      and now = "LocalDate 2024 0 2 2000"]
  have nf: "post_user_workouts_complete (LocalDate 2024 0 2 2000) (Some 9) example_store =
       (Response 404 (Message ''User workout not found''), example_store)"
    by blast
  have c: "completed yoga_assignment = False" by (simp add: yoga_assignment_def)
  have u2: "userId yoga_assignment = 2" by (simp add: yoga_assignment_def)
  have ex: "exact_sum 0 80 \<and> exact_sum 0 15 \<and> exact_sum 0 1"
    by (simp add: exact_sum_def safe_integer_def)
  have before: "map_option (\<lambda>u. (caloriesBurned u, activeMinutes u, completedWorkouts u))
        (getUser alice_scheduled 2) = Some (0, 0, 0)"
    using alice_scheduled_user by (simp add: u2)
  let ?s' = "snd (post_user_workouts_complete (LocalDate 2024 0 2 2000) (Some 1) alice_scheduled)"
  from complete_without_assignment_or_pet [where s = alice_scheduled and i = 1
      and uw = yoga_assignment and now = "LocalDate 2024 0 2 2000"]
    reachable_alice_scheduled alice_scheduled_uw alice_scheduled_no_pet yoga_not_completed
  have "status (fst (post_user_workouts_complete (LocalDate 2024 0 2 2000) (Some 1) alice_scheduled))
       = 200
   \<and> pets ?s' = pets alice_scheduled
   \<and> map_option completed (getUserWorkout ?s' 1) = Some True
   \<and> map_option (\<lambda>u. (caloriesBurned u, activeMinutes u, completedWorkouts u)) (getUser ?s' 2)
       = Some (80, 15, 1)"
    using alice_scheduled_user ex
    by (auto simp: alice_scheduled_workout evening_yoga_def u2)
  with none nf reachable_alice_scheduled alice_scheduled_uw c alice_scheduled_no_pet before ex
  show ?thesis by blast
qed

text \<open>
  Claim C10. On a pet of any store of the class, \<open>updatePet\<close> returns and stores a pet
  in which every field that the update object does not supply (\<open>id\<close>, \<open>userId\<close>,
  \<open>name\<close>, \<open>type\<close>, the three attributes, \<open>level\<close>, \<open>xp\<close> and the three last-care
  times alike) has exactly the value it had before.
\<close>

theorem updatePet_keeps_unsupplied_fields:
  assumes "built s" and "getPet s i = Some p"
  shows "\<exists>p'. updatePet i u s = (Some p', s\<lparr> pets := AList.update i p' (pets s) \<rparr>)
     \<and> (upd_id u = None \<longrightarrow> id_pet p' = id_pet p)
     \<and> (upd_userId u = None \<longrightarrow> userId_pet p' = userId_pet p)
     \<and> (upd_name u = None \<longrightarrow> name_pet p' = name_pet p)
     \<and> (upd_type u = None \<longrightarrow> type_pet p' = type_pet p)
     \<and> (upd_health u = None \<longrightarrow> health p' = health p)
     \<and> (upd_hunger u = None \<longrightarrow> hunger p' = hunger p)
     \<and> (upd_happiness u = None \<longrightarrow> happiness p' = happiness p)
     \<and> (upd_level u = None \<longrightarrow> level p' = level p)
     \<and> (upd_xp u = None \<longrightarrow> xp p' = xp p)
     \<and> (upd_lastFed u = None \<longrightarrow> lastFed p' = lastFed p)
     \<and> (upd_lastPlayed u = None \<longrightarrow> lastPlayed p' = lastPlayed p)
     \<and> (upd_lastGroomed u = None \<longrightarrow> lastGroomed p' = lastGroomed p)"
proof -
  let ?p' = "ensure_bounds (spread_pet p u)"
  have c: "capped p" using assms by (rule built_pet_capped)
  show ?thesis
  proof (rule exI [of _ ?p'], intro conjI)
    show "updatePet i u s = (Some ?p', s\<lparr> pets := AList.update i ?p' (pets s) \<rparr>)"
      using assms(2) by (rule updatePet_Some)
    show "upd_id u = None \<longrightarrow> id_pet ?p' = id_pet p"
      by (simp add: ensure_bounds_eq spread_pet_sel)
    show "upd_userId u = None \<longrightarrow> userId_pet ?p' = userId_pet p"
      by (simp add: ensure_bounds_eq spread_pet_sel)
    show "upd_name u = None \<longrightarrow> name_pet ?p' = name_pet p"
      by (simp add: ensure_bounds_eq spread_pet_sel)
    show "upd_type u = None \<longrightarrow> type_pet ?p' = type_pet p"
      by (simp add: ensure_bounds_eq spread_pet_sel)
    show "upd_health u = None \<longrightarrow> health ?p' = health p"
      using c by (simp add: ensure_bounds_eq spread_pet_sel capped_def)
    show "upd_hunger u = None \<longrightarrow> hunger ?p' = hunger p"
      using c by (simp add: ensure_bounds_eq spread_pet_sel capped_def)
    show "upd_happiness u = None \<longrightarrow> happiness ?p' = happiness p"
      using c by (simp add: ensure_bounds_eq spread_pet_sel capped_def)
    show "upd_level u = None \<longrightarrow> level ?p' = level p"
      by (simp add: ensure_bounds_eq spread_pet_sel)
    show "upd_xp u = None \<longrightarrow> xp ?p' = xp p"
      by (simp add: ensure_bounds_eq spread_pet_sel)
    show "upd_lastFed u = None \<longrightarrow> lastFed ?p' = lastFed p"
      by (simp add: ensure_bounds_eq spread_pet_sel)
    show "upd_lastPlayed u = None \<longrightarrow> lastPlayed ?p' = lastPlayed p"
      by (simp add: ensure_bounds_eq spread_pet_sel)
    show "upd_lastGroomed u = None \<longrightarrow> lastGroomed ?p' = lastGroomed p"
      by (simp add: ensure_bounds_eq spread_pet_sel)
  qed
qed

theorem updatePet_keeps_unsupplied_fields_witness:
  "built example_store \<and> getPet example_store 1 = Some buddy
   \<and> fst (updatePet 1 (no_updates\<lparr> upd_type := Some ''dog'', upd_hunger := Some 40 \<rparr>)
            example_store)
      = Some (buddy\<lparr> type_pet := ''dog'', hunger := 40 \<rparr>)"
proof -
  let ?u = "no_updates\<lparr> upd_type := Some ''dog'', upd_hunger := Some 40 \<rparr>"
  from updatePet_keeps_unsupplied_fields [OF built_example_store example_store_buddy, of ?u]
  obtain p' where r: "updatePet 1 ?u example_store =
        (Some p', example_store\<lparr> pets := AList.update 1 p' (pets example_store) \<rparr>)"
    and f: "id_pet p' = id_pet buddy" "userId_pet p' = userId_pet buddy"
      "name_pet p' = name_pet buddy" "health p' = health buddy"
      "happiness p' = happiness buddy" "level p' = level buddy" "xp p' = xp buddy"
      "lastFed p' = lastFed buddy" "lastPlayed p' = lastPlayed buddy"
      "lastGroomed p' = lastGroomed buddy"
    by (auto simp: no_updates_sel)
  have "p' = ensure_bounds (spread_pet buddy ?u)"
    using r by (simp add: updatePet_Some [OF example_store_buddy])
  then have "type_pet p' = ''dog''" "hunger p' = 40"
    by (simp_all add: ensure_bounds_eq spread_pet_sel no_updates_sel)
  with f have "p' = buddy\<lparr> type_pet := ''dog'', hunger := 40 \<rparr>" by simp
  with r built_example_store example_store_buddy show ?thesis by simp
qed

text \<open>
  Claim C5. A pet whose health, hunger and happiness lie in \<open>[0, 100]\<close> still has them
  in \<open>[0, 100]\<close> after a feed, a play, a groom or a PATCH of it (whatever the body: a
  body that fails validation changes nothing). And when all pets of a store are within
  \<open>[0, 100]\<close>, they all still are after any request to these four routes or to the
  completion route, whatever its arguments: that covers the pet update of a workout
  completion, which finds its pet by user id.
\<close>

theorem bounded_attributes_kept:
  "(getPet s i = Some p \<and> in_bounds p \<longrightarrow>
      (\<exists>p'. getPet (snd (post_pets_feed now (Some i) s)) i = Some p' \<and> in_bounds p')
      \<and> (\<exists>p'. getPet (snd (post_pets_play now (Some i) s)) i = Some p' \<and> in_bounds p')
      \<and> (\<exists>p'. getPet (snd (post_pets_groom now (Some i) s)) i = Some p' \<and> in_bounds p')
      \<and> (\<exists>p'. getPet (snd (patch_pets (Some i) b s)) i = Some p' \<and> in_bounds p'))
   \<and> (pets_in_bounds s \<longrightarrow>
      pets_in_bounds (snd (post_pets_feed now idParam s))
      \<and> pets_in_bounds (snd (post_pets_play now idParam s))
      \<and> pets_in_bounds (snd (post_pets_groom now idParam s))
      \<and> pets_in_bounds (snd (patch_pets idParam b s))
      \<and> pets_in_bounds (snd (post_user_workouts_complete now idParam s)))"
  using feed_pet_in_bounds [of s i p now] play_pet_in_bounds [of s i p now]
    groom_pet_in_bounds [of s i p now] patch_pet_in_bounds [of s i p b]
    feed_keeps_bounds [of s now idParam] play_keeps_bounds [of s now idParam]
    groom_keeps_bounds [of s now idParam] patch_keeps_bounds [of s idParam b]
    complete_keeps_bounds [of s now idParam]
  by blast

theorem bounded_attributes_kept_witness:
  "getPet scheduled 1 = Some (buddy\<lparr> happiness := 50, health := 97 \<rparr>)
   \<and> in_bounds (buddy\<lparr> happiness := 50, health := 97 \<rparr>)
   \<and> pets_in_bounds scheduled
   \<and> (\<exists>p'. getPet (snd (post_pets_feed (LocalDate 2024 0 2 500) (Some 1) scheduled)) 1 = Some p'
          \<and> in_bounds p')
   \<and> (\<exists>p'. getPet (snd (patch_pets (Some 1) (no_updates\<lparr> upd_hunger := Some 0 \<rparr>) scheduled)) 1
            = Some p' \<and> in_bounds p')
   \<and> pets_in_bounds (snd (post_pets_play (LocalDate 2024 0 2 500) (Some 1) scheduled))
   \<and> pets_in_bounds (snd (post_user_workouts_complete (LocalDate 2024 0 2 500) (Some 1) scheduled))"
proof -
  have b: "in_bounds (buddy\<lparr> happiness := 50, health := 97 \<rparr>)"
    by (simp add: in_bounds_def buddy_def)
  from bounded_attributes_kept [of scheduled 1 "buddy\<lparr> happiness := 50, health := 97 \<rparr>"
      "LocalDate 2024 0 2 500" "no_updates\<lparr> upd_hunger := Some 0 \<rparr>" "Some 1"]
    scheduled_buddy b scheduled_in_bounds
  show ?thesis by blast
qed

text \<open>
  Claim C4 says that the pet returned by \<open>updatePet\<close> has health, hunger and happiness
  within \<open>[0, 100]\<close> for any update object. The code caps at 100 only
  (\<open>updatePet_result_capped\<close>): on the constructor's store,
  \<open>updatePet(1, { hunger: -5 })\<close> returns and stores Buddy with hunger \<open>-5\<close>.
\<close>

theorem updatePet_negative_hunger:
  "fst (updatePet 1 (no_updates\<lparr> upd_hunger := Some (- 5) \<rparr>) example_store)
     = Some (buddy\<lparr> hunger := - 5 \<rparr>)
   \<and> getPet (snd (updatePet 1 (no_updates\<lparr> upd_hunger := Some (- 5) \<rparr>) example_store)) 1
     = Some (buddy\<lparr> hunger := - 5 \<rparr>)
   \<and> \<not> in_bounds (buddy\<lparr> hunger := - 5 \<rparr>)"
  by (simp add: updatePet_Some [OF example_store_buddy] getPet_def map_of_update
      ensure_bounds_def spread_pet_def no_updates_def buddy_def in_bounds_def Let_def)

text \<open>
  Claim C2 says that a scheduling request that finds an assignment of the same user and
  workout on the same calendar day returns that same-day assignment. The handler
  returns the first assignment of the user with that workout id, whatever its day: user 1
  has the strength training on 1 January (assignment 1); scheduling it for 2 January,
  09:00, creates assignment 2; scheduling it again for 2 January, 18:00, is answered with
  200 and assignment 1, the one of 1 January.
\<close>

theorem schedule_returns_other_day:
  "post_users_workouts (Some 1)
       \<lparr> body_workoutId = 2, body_scheduledFor = LocalDate 2024 0 2 32400000 \<rparr> one_day =
     (Response 201 (UserWorkoutJson (Some
        \<lparr> id_uw = 2, userId = 1, workoutId = 2, completed = False,
          scheduledFor = LocalDate 2024 0 2 32400000, completedAt = None \<rparr>)),
      two_days)
   \<and> post_users_workouts (Some 1)
        \<lparr> body_workoutId = 2, body_scheduledFor = LocalDate 2024 0 2 64800000 \<rparr> two_days =
       (Response 200
          (UserWorkoutWithDetailsJson
             (Some (with_details
                \<lparr> id_uw = 1, userId = 1, workoutId = 2, completed = False,
                  scheduledFor = LocalDate 2024 0 1 32400000, completedAt = None \<rparr>
                (Some strength_training)))),
        two_days)"
proof -
  have "post_users_workouts (Some 1)
        \<lparr> body_workoutId = 2, body_scheduledFor = LocalDate 2024 0 2 64800000 \<rparr> two_days =
       (Response 200
          (UserWorkoutWithDetailsJson
             (Some (with_details
                \<lparr> id_uw = 1, userId = 1, workoutId = 2, completed = False,
                  scheduledFor = LocalDate 2024 0 1 32400000, completedAt = None \<rparr>
                (Some strength_training)))),
        two_days)"
    by (simp add: post_users_workouts_def getWorkout_def
        getUserWorkoutsByUserId_def isDuplicate_def with_details_sel two_days_eq
        example_store_eq Let_def)
  then show ?thesis by (simp add: second_day_response two_days_eq)
qed

end
